theory Spec2Isabelle
  imports Main "HOL-Library.Word" "HOL-Library.AList"
begin

section \<open>Shared types of the wallet capability interface\<close>

text \<open>
  The Go interface \<open>api.WalletAPI\<close> is implemented by every backend, by the
  \<open>SafeWallet\<close> decorator and by the \<open>MultiWallet\<close> router. A Go call returns a
  value together with an \<open>error\<close>; here it returns \<open>Inl e\<close> for a non-nil error and
  \<open>Inr v\<close> otherwise. A backend is an object with private state: every method takes
  the backend's state and returns the state after the call.
\<close>

type_synonym bytes = "8 word list"

type_synonym Address = string

type_synonym KeyType = string

type_synonym MsgType = string

type_synonym Cid = bytes

datatype error = Err string

record MsgMeta =
  Type :: MsgType
  Extra :: bytes

record Signature =
  SigType :: "8 word"
  SigData :: bytes

record KeyInfo =
  KeyInfoType :: KeyType
  PrivateKey :: bytes

record 's WalletAPI =
  WalletNew :: "KeyType \<Rightarrow> 's \<Rightarrow> (error + Address) \<times> 's"
  WalletHas :: "Address \<Rightarrow> 's \<Rightarrow> (error + bool) \<times> 's"
  WalletList :: "'s \<Rightarrow> (error + Address list) \<times> 's"
  WalletSign :: "Address \<Rightarrow> bytes \<Rightarrow> MsgMeta \<Rightarrow> 's \<Rightarrow> (error + Signature option) \<times> 's"
  WalletExport :: "Address \<Rightarrow> 's \<Rightarrow> (error + KeyInfo option) \<times> 's"
  WalletImport :: "KeyInfo \<Rightarrow> 's \<Rightarrow> (error + Address) \<times> 's"
  WalletDelete :: "Address \<Rightarrow> 's \<Rightarrow> error option \<times> 's"

section \<open>The capability-restricting decorator (safewallet.go, SafeWallet)\<close>

text \<open>
  \<open>SafeWallet\<close> embeds one \<open>api.WalletAPI\<close>. Each method below is the Go method of
  the same name, with the embedded backend \<open>w\<close> as first argument.
\<close>

definition SafeWallet_WalletNew :: "'s WalletAPI \<Rightarrow> KeyType \<Rightarrow> 's \<Rightarrow> (error + Address) \<times> 's" where
  "SafeWallet_WalletNew w keyType s =
     (Inl (Err ''safe wallet is enabled, use import instead of new''), s)"

definition SafeWallet_WalletHas :: "'s WalletAPI \<Rightarrow> Address \<Rightarrow> 's \<Rightarrow> (error + bool) \<times> 's" where
  "SafeWallet_WalletHas w a s = WalletHas w a s"

definition SafeWallet_WalletList :: "'s WalletAPI \<Rightarrow> 's \<Rightarrow> (error + Address list) \<times> 's" where
  "SafeWallet_WalletList w s = WalletList w s"

definition SafeWallet_WalletSign ::
  "'s WalletAPI \<Rightarrow> Address \<Rightarrow> bytes \<Rightarrow> MsgMeta \<Rightarrow> 's \<Rightarrow> (error + Signature option) \<times> 's" where
  "SafeWallet_WalletSign w signer toSign meta s = WalletSign w signer toSign meta s"

definition SafeWallet_WalletExport ::
  "'s WalletAPI \<Rightarrow> Address \<Rightarrow> 's \<Rightarrow> (error + KeyInfo option) \<times> 's" where
  "SafeWallet_WalletExport w a s = (Inl (Err ''DO NOT EXPORT THIS WALLET''), s)"

definition SafeWallet_WalletImport :: "'s WalletAPI \<Rightarrow> KeyInfo \<Rightarrow> 's \<Rightarrow> (error + Address) \<times> 's" where
  "SafeWallet_WalletImport w info s = WalletImport w info s"

definition SafeWallet_WalletDelete :: "'s WalletAPI \<Rightarrow> Address \<Rightarrow> 's \<Rightarrow> error option \<times> 's" where
  "SafeWallet_WalletDelete w a s = WalletDelete w a s"

text \<open>The decorator as a backend of its own, as \<open>MultiWallet.Add\<close> receives it.\<close>

definition SafeWallet :: "'s WalletAPI \<Rightarrow> 's WalletAPI" where
  "SafeWallet w =
     \<lparr> WalletNew = SafeWallet_WalletNew w,
       WalletHas = SafeWallet_WalletHas w,
       WalletList = SafeWallet_WalletList w,
       WalletSign = SafeWallet_WalletSign w,
       WalletExport = SafeWallet_WalletExport w,
       WalletImport = SafeWallet_WalletImport w,
       WalletDelete = SafeWallet_WalletDelete w \<rparr>"


section \<open>The multi-backend router (safewallet.go, MultiWallet)\<close>

text \<open>
  \<open>MultiWallet.wallets\<close> is a slice of backends. Each backend is an object of its
  own: its methods paired with its current state. A method of the router returns
  the slice with the states the backends have after the call.
\<close>

type_synonym 's MultiWallet = "('s WalletAPI \<times> 's) list"

text \<open>
  \<open>MultiWallet.WalletNew\<close>: the loop over \<open>m.wallets\<close> returns at the first backend
  whose \<open>WalletNew\<close> has a nil error; after the loop, the aggregate error, formatted
  with the key type.
\<close>

fun MultiWallet_WalletNew :: "'s MultiWallet \<Rightarrow> KeyType \<Rightarrow> (error + Address) \<times> 's MultiWallet" where
  "MultiWallet_WalletNew [] keyType =
     (Inl (Err (''no wallet backends supporting key type: '' @ keyType)), [])"
| "MultiWallet_WalletNew ((w, s) # ws) keyType =
     (case WalletNew w keyType s of
        (Inr a, s') \<Rightarrow> (Inr a, (w, s') # ws)
      | (Inl err, s') \<Rightarrow>
          (case MultiWallet_WalletNew ws keyType of (r, ws') \<Rightarrow> (r, (w, s') # ws')))"

text \<open>
  \<open>MultiWallet.WalletList\<close>. The inner loop runs over one backend's list \<open>l\<close> and
  carries the map \<open>seen\<close> (a set: its values are empty structs) and the slice \<open>out\<close>.
\<close>

fun WalletList_inner :: "Address list \<Rightarrow> Address set \<times> Address list \<Rightarrow> Address set \<times> Address list" where
  "WalletList_inner [] (seen, out) = (seen, out)"
| "WalletList_inner (a # l) (seen, out) =
     (if a \<in> seen then WalletList_inner l (seen, out)
      else WalletList_inner l (insert a seen, out @ [a]))"

fun WalletList_outer ::
  "'s MultiWallet \<Rightarrow> Address set \<times> Address list \<Rightarrow> (error + Address list) \<times> 's MultiWallet" where
  "WalletList_outer [] (seen, out) = (Inr out, [])"
| "WalletList_outer ((w, s) # ws) (seen, out) =
     (case WalletList w s of
        (Inl err, s') \<Rightarrow> (Inl err, (w, s') # ws)
      | (Inr l, s') \<Rightarrow>
          (case WalletList_outer ws (WalletList_inner l (seen, out)) of
             (r, ws') \<Rightarrow> (r, (w, s') # ws')))"

definition MultiWallet_WalletList :: "'s MultiWallet \<Rightarrow> (error + Address list) \<times> 's MultiWallet" where
  "MultiWallet_WalletList m = WalletList_outer m ({}, [])"

text \<open>What one backend reports when asked for its list, and whether it answers at all.\<close>

definition reported :: "'s WalletAPI \<times> 's \<Rightarrow> Address list" where
  "reported b = (case fst (WalletList (fst b) (snd b)) of Inr l \<Rightarrow> l | Inl err \<Rightarrow> [])"

definition lists :: "'s WalletAPI \<times> 's \<Rightarrow> bool" where
  "lists b = (case fst (WalletList (fst b) (snd b)) of Inr l \<Rightarrow> True | Inl err \<Rightarrow> False)"

definition rejects_new :: "KeyType \<Rightarrow> 's WalletAPI \<times> 's \<Rightarrow> bool" where
  "rejects_new keyType b =
     (case fst (WalletNew (fst b) keyType (snd b)) of Inr a \<Rightarrow> False | Inl err \<Rightarrow> True)"

text \<open>
  An in-memory keystore, used to run the router on concrete backends. Its state is
  the list of addresses it holds; a new key gets the key type followed by one
  \<open>k\<close> per key already held.
\<close>

definition MemWallet :: "Address list WalletAPI" where
  "MemWallet =
     \<lparr> WalletNew = (\<lambda>keyType s.
          (let a = keyType @ replicate (length s) (CHR ''k'') in (Inr a, s @ [a]))),
       WalletHas = (\<lambda>a s. (Inr (a \<in> set s), s)),
       WalletList = (\<lambda>s. (Inr s, s)),
       WalletSign = (\<lambda>a toSign meta s.
          (if a \<in> set s then Inr (Some \<lparr>SigType = 1, SigData = toSign\<rparr>)
           else Inl (Err ''key not found''), s)),
       WalletExport = (\<lambda>a s.
          (if a \<in> set s then Inr (Some \<lparr>KeyInfoType = ''secp256k1'', PrivateKey = []\<rparr>)
           else Inl (Err ''key not found''), s)),
       WalletImport = (\<lambda>info s. (Inr (KeyInfoType info), s @ [KeyInfoType info])),
       WalletDelete = (\<lambda>a s.
          (if a \<in> set s then None else Some (Err ''key not found''), removeAll a s)) \<rparr>"

section \<open>The offline pending-signature queue (offline.go, OfflineWallet)\<close>

text \<open>
  Three things the queue uses are declared outside this repository and are taken as
  parameters: \<open>cid.CidFromBytes\<close> (with \<open>Cid.String\<close>, used in an error message),
  \<open>sigs.Verify\<close> and the constant \<open>api.MTChainMsg\<close>.
\<close>

record ext =
  CidFromBytes :: "bytes \<Rightarrow> error + Cid"
  CidString :: "Cid \<Rightarrow> string"
  Verify :: "Signature \<Rightarrow> Address \<Rightarrow> bytes \<Rightarrow> error option"
  MTChainMsg :: MsgType

text \<open>
  The structs of offline.go. \<open>Meta\<close> has the fields \<open>Type\<close> and \<open>Extra\<close> of
  \<open>api.MsgMeta\<close>; they are named \<open>MetaType\<close> and \<open>MetaExtra\<close> here to keep the two
  records apart. \<open>SignedMessage\<close> embeds an \<open>UnsignedMessage\<close> and a
  \<open>crypto.Signature\<close>. A channel is identified by a number; \<open>make(chan)\<close> takes
  the next one.
\<close>

record Meta =
  MetaType :: MsgType
  MetaExtra :: bytes

record UnsignedMessage =
  Address :: Address
  ToSign :: bytes
  Meta :: Meta

record SignedMessage =
  Unsigned :: UnsignedMessage
  Sig :: Signature

record PendingUnsignedMessage =
  msg :: UnsignedMessage
  ch :: nat

text \<open>
  \<open>OfflineWallet.unsigned\<close> is a map of maps; it is an association list of
  association lists here, and the order of a list is the order in which a
  \<open>range\<close> loop visits the map (Go leaves that order open, so a property has to
  hold for every order). \<open>lock\<close> tells whether the mutex is held. Every method
  locks and unlocks within one step of the model, so between two calls \<open>lock\<close>
  is set only when a goroutine is blocked for good while holding the mutex;
  \<open>Lock()\<close> on such a mutex never returns. A call that never returns has the
  result \<open>None\<close>. The datastore \<open>ds\<close> is not read or written by the methods
  below and is left out.
\<close>

record OfflineWallet =
  unsigned :: "(Address \<times> (Cid \<times> PendingUnsignedMessage) list) list"
  lock :: bool
  chans :: nat

text \<open>The closure of \<open>WalletSign\<close> that runs under the mutex (offline.go, lines 101 to 122).\<close>

definition WalletSign_register ::
  "OfflineWallet \<Rightarrow> Address \<Rightarrow> bytes \<Rightarrow> MsgMeta \<Rightarrow> Cid \<Rightarrow> nat \<times> OfflineWallet" where
  "WalletSign_register ow signer toSign meta c =
     (let u = (case map_of (unsigned ow) signer of
                 None \<Rightarrow> AList.update signer [] (unsigned ow)
               | Some p \<Rightarrow> unsigned ow);
          k = chans ow;
          p = (case map_of u signer of None \<Rightarrow> [] | Some p \<Rightarrow> p);
          e = \<lparr> msg = \<lparr> Address = signer, ToSign = toSign,
                         Meta = \<lparr> MetaType = Type meta, MetaExtra = Extra meta \<rparr> \<rparr>,
                ch = k \<rparr>
      in (k, ow \<lparr> unsigned := AList.update signer (AList.update c e p) u, chans := Suc k \<rparr>))"

text \<open>The deferred function of \<open>WalletSign\<close> (offline.go, lines 124 to 131).\<close>

definition WalletSign_cleanup :: "OfflineWallet \<Rightarrow> Address \<Rightarrow> Cid \<Rightarrow> OfflineWallet" where
  "WalletSign_cleanup ow signer c =
     (case map_of (unsigned ow) signer of
        None \<Rightarrow> ow
      | Some p \<Rightarrow> ow \<lparr> unsigned := AList.update signer (AList.delete c p) (unsigned ow) \<rparr>)"

text \<open>
  The \<open>select\<close> of \<open>WalletSign\<close> ends in one of two ways. Which one, and what other
  goroutines did to the queue meanwhile, is decided outside \<open>WalletSign\<close>: the
  argument \<open>wait\<close> gets the channel and the queue as \<open>WalletSign\<close> left it, and
  returns the outcome of the \<open>select\<close> and the queue at that moment.
\<close>

datatype select = TimeAfter | Recv "Signature option"

definition OfflineWallet_WalletSign ::
  "ext \<Rightarrow> (nat \<Rightarrow> OfflineWallet \<Rightarrow> select \<times> OfflineWallet) \<Rightarrow> OfflineWallet \<Rightarrow>
   Address \<Rightarrow> bytes \<Rightarrow> MsgMeta \<Rightarrow> (error + Signature option) option \<times> OfflineWallet" where
  "OfflineWallet_WalletSign x wait ow signer toSign meta =
     (case CidFromBytes x toSign of
        Inl err \<Rightarrow> (Some (Inl err), ow)
      | Inr c \<Rightarrow>
          if Type meta \<noteq> MTChainMsg x
          then (Some (Inl (Err ''only MTChainMsg is supported'')), ow)
          else if lock ow then (None, ow)
          else
            (case WalletSign_register ow signer toSign meta c of (k, ow1) \<Rightarrow>
             case wait k ow1 of (sel, ow2) \<Rightarrow>
               if lock ow2 then (None, ow2)
               else
                 (Some (case sel of
                          TimeAfter \<Rightarrow> Inl (Err ''timeout to wait to submit signature'')
                        | Recv sig \<Rightarrow> Inr sig),
                  WalletSign_cleanup ow2 signer c)))"

text \<open>\<open>GetPendingMessages\<close>: both loops, under the mutex.\<close>

definition GetPendingMessages :: "OfflineWallet \<Rightarrow> (error + UnsignedMessage list) option" where
  "GetPendingMessages ow =
     (if lock ow then None
      else Some (Inr (concat (map (\<lambda>(a, p). map (\<lambda>(c, m). msg m) p) (unsigned ow)))))"

text \<open>
  \<open>SubmitSignature\<close>. The send \<open>m.ch <- &message.Signature\<close> is on an unbuffered
  channel and is made with the mutex held: it completes when a goroutine receives
  on that channel (\<open>receiving\<close> tells whether one does), and otherwise the call
  stays blocked with the mutex held. The result is the returned error (if the
  call returns), the channel and signature of a completed send, and the queue.
\<close>

definition SubmitSignature ::
  "ext \<Rightarrow> (nat \<Rightarrow> bool) \<Rightarrow> OfflineWallet \<Rightarrow> SignedMessage \<Rightarrow>
   error option option \<times> (nat \<times> Signature option) option \<times> OfflineWallet" where
  "SubmitSignature x receiving ow message =
     (case CidFromBytes x (ToSign (Unsigned message)) of
        Inl err \<Rightarrow> (Some (Some err), None, ow)
      | Inr cid \<Rightarrow>
          (case Verify x (Sig message) (Address (Unsigned message)) (ToSign (Unsigned message)) of
             Some err \<Rightarrow> (Some (Some err), None, ow)
           | None \<Rightarrow>
               if lock ow then (None, None, ow)
               else
                 (case find (\<lambda>(c, m). c = cid) (concat (map snd (unsigned ow))) of
                    Some (c, m) \<Rightarrow>
                      if receiving (ch m) then (Some None, Some (ch m, Some (Sig message)), ow)
                      else (None, None, ow \<lparr> lock := True \<rparr>)
                  | None \<Rightarrow>
                      (Some (Some (Err (''message '' @ CidString x cid @ '' does not exist''))),
                       None, ow))))"

text \<open>
  Stand-ins for the outside functions, used to run the queue on concrete inputs: a
  content identifier is valid when its first byte is 1 and is made of the first
  three bytes; a signature verifies when its data are the bytes of the address
  followed by the payload.
\<close>

definition demo_ext :: ext where
  "demo_ext =
     \<lparr> CidFromBytes = (\<lambda>b. if b \<noteq> [] \<and> hd b = 1 then Inr (take 3 b) else Inl (Err ''invalid cid'')),
       CidString = map (\<lambda>w. char_of (unat w)),
       Verify = (\<lambda>s a p. if SigData s = map (\<lambda>c. of_nat (of_char c)) a @ p then None
                          else Some (Err ''invalid signature'')),
       MTChainMsg = ''message'' \<rparr>"

definition demo_sign :: "Address \<Rightarrow> bytes \<Rightarrow> Signature" where
  "demo_sign a p = \<lparr> SigType = 1, SigData = map (\<lambda>c. of_nat (of_char c)) a @ p \<rparr>"

text \<open>
  The entry the queue holds for an address and a content identifier, and the shape
  every queue built by \<open>WalletSign\<close> has: keys occur once, and an entry is filed
  under the address and the content identifier of its own message.
\<close>

definition pending :: "OfflineWallet \<Rightarrow> Address \<Rightarrow> Cid \<Rightarrow> PendingUnsignedMessage option" where
  "pending ow a c = (case map_of (unsigned ow) a of None \<Rightarrow> None | Some p \<Rightarrow> map_of p c)"

definition well_keyed :: "ext \<Rightarrow> OfflineWallet \<Rightarrow> bool" where
  "well_keyed x ow =
     (distinct (map fst (unsigned ow))
      \<and> list_all (\<lambda>(a, p). distinct (map fst p)
           \<and> list_all (\<lambda>(c, m). Address (msg m) = a \<and> CidFromBytes x (ToSign (msg m)) = Inr c) p)
          (unsigned ow))"

text \<open>An empty queue and the meta data of a chain message, for concrete runs.\<close>

definition q0 :: OfflineWallet where
  "q0 = \<lparr> unsigned = [], lock = False, chans = 0 \<rparr>"

definition chain_meta :: MsgMeta where
  "chain_meta = \<lparr> Type = ''message'', Extra = [] \<rparr>"

section \<open>The relay (server.go, WalletServer; main.go, connectCmd)\<close>

text \<open>
  The four command kinds, numbered by \<open>iota\<close>, and the structs of server.go.
  \<open>SignRequest\<close> has the fields \<open>Signer\<close>, \<open>ToSign\<close> and \<open>Meta\<close>, \<open>SignResponse\<close>
  has \<open>Signature\<close> and \<open>Err\<close>, \<open>ListWalletResponse\<close> has \<open>Addresses\<close> and \<open>Err\<close>;
  fields whose names are taken already carry a prefix here.
\<close>

definition CommandListWalletRequest :: int where
  "CommandListWalletRequest = 0"

definition CommandListWalletResponse :: int where
  "CommandListWalletResponse = 1"

definition CommandSignRequest :: int where
  "CommandSignRequest = 2"

definition CommandSignResponse :: int where
  "CommandSignResponse = 3"

record SignRequest =
  Signer :: Address
  ReqToSign :: bytes
  ReqMeta :: MsgMeta

record SignResponse =
  RespSignature :: "Signature option"
  RespErr :: string

record ListWalletResponse =
  Addresses :: "Address list"
  ListErr :: string

record command =
  Command :: int
  Data :: bytes

text \<open>
  \<open>encoding/json\<close> and the websocket connection are declared outside this
  repository and are taken as parameters. A connection has a state of its own
  (type \<open>'c\<close>); \<open>ReadJSON\<close> returns \<open>None\<close> when no message ever arrives, so that
  the reader stays blocked.
\<close>

record json =
  Marshal_SignRequest :: "SignRequest \<Rightarrow> error + bytes"
  Unmarshal_SignRequest :: "bytes \<Rightarrow> error + SignRequest"
  Marshal_SignResponse :: "SignResponse \<Rightarrow> error + bytes"
  Unmarshal_SignResponse :: "bytes \<Rightarrow> error + SignResponse"
  Marshal_ListWalletResponse :: "ListWalletResponse \<Rightarrow> error + bytes"
  Unmarshal_ListWalletResponse :: "bytes \<Rightarrow> error + ListWalletResponse"

record 'c websocket =
  WriteJSON :: "command \<Rightarrow> 'c \<Rightarrow> error option \<times> 'c"
  ReadJSON :: "'c \<Rightarrow> (error + command) option \<times> 'c"

text \<open>The text of an error, as \<open>%+v\<close> and \<open>err.Error()\<close> print it.\<close>

fun error_text :: "error \<Rightarrow> string" where
  "error_text (Err s) = s"

text \<open>
  \<open>clientWallet\<close>. The field \<open>close\<close> is the sending end of an unbuffered channel;
  what matters of it is whether a goroutine is receiving on it, and that is what
  the field holds here. A send on it completes, and uses the receiver up, when there
  is one; otherwise the sender stays blocked.
\<close>

record 'c clientWallet =
  addresses :: "Address list"
  conn :: 'c
  close :: bool

text \<open>\<open>clientWallet.call\<close>: write the command, read the reply.\<close>

definition call ::
  "'c websocket \<Rightarrow> 'c clientWallet \<Rightarrow> command \<Rightarrow> (error + command) option \<times> 'c clientWallet" where
  "call io c cmd =
     (case WriteJSON io cmd (conn c) of
        (Some err, k) \<Rightarrow>
          if close c
          then (Some (Inl (Err (''send command, '' @ error_text err))), c \<lparr> conn := k, close := False \<rparr>)
          else (None, c \<lparr> conn := k \<rparr>)
      | (None, k) \<Rightarrow>
          (case ReadJSON io k of
             (None, k') \<Rightarrow> (None, c \<lparr> conn := k' \<rparr>)
           | (Some (Inl err), k') \<Rightarrow>
               if close c then (Some (Inl err), c \<lparr> conn := k', close := False \<rparr>)
               else (None, c \<lparr> conn := k' \<rparr>)
           | (Some (Inr out), k') \<Rightarrow> (Some (Inr out), c \<lparr> conn := k' \<rparr>)))"

text \<open>
  \<open>WalletServer\<close>. The registry \<open>clients\<close> is a map whose keys are pointers to
  \<open>clientWallet\<close>; it is the association list from each pointer to the struct it
  points to, in the order a \<open>range\<close> loop visits it. \<open>mutex\<close> tells whether the
  mutex is held, as \<open>lock\<close> does for the offline queue. \<open>allocs\<close> is the next
  fresh pointer.
\<close>

record 'c WalletServer =
  mutex :: bool
  clients :: "(nat \<times> 'c clientWallet) list"
  allocs :: nat

definition NewWalletServer :: "'c WalletServer" where
  "NewWalletServer = \<lparr> mutex = False, clients = [], allocs = 0 \<rparr>"

definition WalletServer_WalletHas :: "'c WalletServer \<Rightarrow> Address \<Rightarrow> (error + bool) option" where
  "WalletServer_WalletHas srv addr =
     (if mutex srv then None
      else Some (Inr (list_ex (\<lambda>(p, c). addr \<in> set (addresses c)) (clients srv))))"

definition WalletServer_WalletList :: "'c WalletServer \<Rightarrow> (error + Address list) option" where
  "WalletServer_WalletList srv =
     (if mutex srv then None
      else Some (Inr (concat (map (\<lambda>(p, c). addresses c) (clients srv)))))"

text \<open>
  \<open>WalletServer.WalletSign\<close>. The mutex is taken on entry and released by a
  deferred \<open>Unlock\<close>, so it is held during \<open>c.call\<close>; when \<open>call\<close> does not return
  the mutex stays held.
\<close>

definition WalletServer_WalletSign ::
  "json \<Rightarrow> 'c websocket \<Rightarrow> 'c WalletServer \<Rightarrow> Address \<Rightarrow> bytes \<Rightarrow> MsgMeta \<Rightarrow>
   (error + Signature option) option \<times> 'c WalletServer" where
  "WalletServer_WalletSign j io srv signer toSign meta =
     (if mutex srv then (None, srv)
      else
        (case find (\<lambda>(p, c). signer \<in> set (addresses c)) (clients srv) of
           None \<Rightarrow> (Some (Inl (Err ''wallet not exist'')), srv)
         | Some (p, c) \<Rightarrow>
             (case Marshal_SignRequest j \<lparr> Signer = signer, ReqToSign = toSign, ReqMeta = meta \<rparr> of
                Inl err \<Rightarrow> (Some (Inl (Err (''serialize resquest, '' @ error_text err))), srv)
              | Inr bytes \<Rightarrow>
                  (case call io c \<lparr> Command = CommandSignRequest, Data = bytes \<rparr> of
                     (None, c') \<Rightarrow>
                       (None, srv \<lparr> mutex := True, clients := AList.update p c' (clients srv) \<rparr>)
                   | (Some (Inl err), c') \<Rightarrow>
                       (Some (Inl err), srv \<lparr> clients := AList.update p c' (clients srv) \<rparr>)
                   | (Some (Inr out), c') \<Rightarrow>
                       (case Unmarshal_SignResponse j (Data out) of
                          Inl err \<Rightarrow>
                            (Some (Inl (Err (''deserialize response, '' @ error_text err))),
                             srv \<lparr> clients := AList.update p c' (clients srv) \<rparr>)
                        | Inr resp \<Rightarrow>
                            (if length (RespErr resp) > 0
                             then Some (Inl (Err (RespErr resp)))
                             else Some (Inr (RespSignature resp)),
                             srv \<lparr> clients := AList.update p c' (clients srv) \<rparr>))))))"

text \<open>
  \<open>WalletServer.serve\<close>, up to the registration of the client. The handshake is
  made before the mutex is taken. The close handler and the ping goroutine that
  \<open>serve\<close> installs afterwards act later, on their own, and are not part of the
  call. The result is the returned error (\<open>Some None\<close> for nil), or \<open>None\<close> when the
  call does not return.
\<close>

definition serve ::
  "json \<Rightarrow> 'c websocket \<Rightarrow> 'c WalletServer \<Rightarrow> 'c \<Rightarrow> bool \<Rightarrow> error option option \<times> 'c WalletServer" where
  "serve j io srv c cl =
     (case call io \<lparr> addresses = [], conn = c, close = cl \<rparr>
             \<lparr> Command = CommandListWalletRequest, Data = [] \<rparr> of
        (None, client) \<Rightarrow> (None, srv)
      | (Some (Inl err), client) \<Rightarrow> (Some (Some (Err (''list wallets, '' @ error_text err))), srv)
      | (Some (Inr out), client) \<Rightarrow>
          if Command out \<noteq> CommandListWalletResponse
          then (Some (Some (Err ''expect list wallet response'')), srv)
          else
            (case Unmarshal_ListWalletResponse j (Data out) of
               Inl err \<Rightarrow> (Some (Some (Err (''failed to decode addresses, '' @ error_text err))), srv)
             | Inr resp \<Rightarrow>
                 if mutex srv then (None, srv)
                 else (Some None,
                       srv \<lparr> clients := AList.update (allocs srv)
                                          (client \<lparr> addresses := Addresses resp \<rparr>) (clients srv),
                             allocs := Suc (allocs srv) \<rparr>)))"

text \<open>
  \<open>ServeHTTP\<close> after the upgrade: it makes the channel \<open>close\<close>, on which nobody
  receives while \<open>serve\<close> runs, and receives on it itself once \<open>serve\<close> has returned
  nil.
\<close>

definition ServeHTTP :: "json \<Rightarrow> 'c websocket \<Rightarrow> 'c WalletServer \<Rightarrow> 'c \<Rightarrow> 'c WalletServer" where
  "ServeHTTP j io srv c =
     (case serve j io srv c False of
        (Some None, srv') \<Rightarrow>
          srv' \<lparr> clients := map (\<lambda>(p, cw). if p = allocs srv then (p, cw \<lparr> close := True \<rparr>) else (p, cw))
                               (clients srv') \<rparr>
      | (r, srv') \<Rightarrow> srv')"

text \<open>
  The body of the read loop of \<open>connectCmd\<close> (main.go, lines 261 to 310), for one
  command \<open>out\<close> read from the connection: the reply written back, and the local
  wallet's state. The reply is \<open>None\<close> where the Go code panics (a response that
  cannot be marshalled). A command of another kind is answered with the zero
  command.
\<close>

definition connect_reply :: "json \<Rightarrow> 's WalletAPI \<Rightarrow> 's \<Rightarrow> command \<Rightarrow> command option \<times> 's" where
  "connect_reply j w s out =
     (if Command out = CommandListWalletRequest then
        (case WalletList w s of
           (r, s') \<Rightarrow>
             (case Marshal_ListWalletResponse j
                     \<lparr> Addresses = (case r of Inr addrs \<Rightarrow> addrs | Inl err \<Rightarrow> []),
                       ListErr = (case r of Inr addrs \<Rightarrow> [] | Inl err \<Rightarrow> error_text err) \<rparr> of
                Inl err \<Rightarrow> (None, s')
              | Inr d \<Rightarrow> (Some \<lparr> Command = CommandListWalletResponse, Data = d \<rparr>, s')))
      else if Command out = CommandSignRequest then
        (case (case Unmarshal_SignRequest j (Data out) of
                 Inl err \<Rightarrow> (Inl err, s)
               | Inr req \<Rightarrow> WalletSign w (Signer req) (ReqToSign req) (ReqMeta req) s) of
           (r, s') \<Rightarrow>
             (case Marshal_SignResponse j
                     \<lparr> RespSignature = (case r of Inr sig \<Rightarrow> sig | Inl err \<Rightarrow> None),
                       RespErr = (case r of Inr sig \<Rightarrow> [] | Inl err \<Rightarrow> error_text err) \<rparr> of
                Inl err \<Rightarrow> (None, s')
              | Inr d \<Rightarrow> (Some \<lparr> Command = CommandSignResponse, Data = d \<rparr>, s')))
      else (Some \<lparr> Command = 0, Data = [] \<rparr>, s))"

text \<open>
  A connection whose far end runs \<open>connectCmd\<close> on the wallet \<open>w\<close>: its state is
  the replies under way and the state of that wallet. A write hands the command
  to the far end, which queues its reply; a read takes the oldest reply, and stays
  blocked when there is none.
\<close>

definition peer :: "json \<Rightarrow> 's WalletAPI \<Rightarrow> (command list \<times> 's) websocket" where
  "peer j w =
     \<lparr> WriteJSON = (\<lambda>cmd (q, s).
          (case connect_reply j w s cmd of
             (Some resp, s') \<Rightarrow> (None, (q @ [resp], s'))
           | (None, s') \<Rightarrow> (None, (q, s')))),
       ReadJSON = (\<lambda>(q, s).
          (case q of [] \<Rightarrow> (None, (q, s)) | resp # q' \<Rightarrow> (Some (Inr resp), (q', s)))) \<rparr>"

text \<open>
  Stand-ins for the outside parts of the relay, used to run it on concrete inputs.
  The codec writes each field behind a byte holding its length; a connection
  \<open>replying reply\<close> accepts every write and answers every read with \<open>reply\<close>
  (with nothing, ever, when \<open>reply\<close> is \<open>None\<close>).
\<close>

definition str_bytes :: "string \<Rightarrow> bytes" where
  "str_bytes s = map (\<lambda>c. of_nat (of_char c)) s"

definition bytes_str :: "bytes \<Rightarrow> string" where
  "bytes_str b = map (\<lambda>w. char_of (unat w)) b"

definition put :: "bytes \<Rightarrow> bytes" where
  "put b = of_nat (length b) # b"

fun get :: "bytes \<Rightarrow> (bytes \<times> bytes) option" where
  "get [] = None"
| "get (n # r) = (if unat n \<le> length r then Some (take (unat n) r, drop (unat n) r) else None)"

fun gets :: "nat \<Rightarrow> bytes \<Rightarrow> (bytes list \<times> bytes) option" where
  "gets 0 b = Some ([], b)"
| "gets (Suc n) b =
     (case get b of
        None \<Rightarrow> None
      | Some (x, r) \<Rightarrow> (case gets n r of None \<Rightarrow> None | Some (xs, r') \<Rightarrow> Some (x # xs, r')))"

definition decoded :: "'a option \<Rightarrow> error + 'a" where
  "decoded v = (case v of None \<Rightarrow> Inl (Err ''unexpected end of JSON input'') | Some r \<Rightarrow> Inr r)"

definition demo_json :: json where
  "demo_json =
     \<lparr> Marshal_SignRequest = (\<lambda>r.
          Inr (put (str_bytes (Signer r)) @ put (ReqToSign r)
               @ put (str_bytes (Type (ReqMeta r))) @ put (Extra (ReqMeta r)))),
       Unmarshal_SignRequest = (\<lambda>b. decoded
          (case gets 4 b of
             Some ([a, t, ty, ex], r) \<Rightarrow>
               Some \<lparr> Signer = bytes_str a, ReqToSign = t,
                      ReqMeta = \<lparr> Type = bytes_str ty, Extra = ex \<rparr> \<rparr>
           | _ \<Rightarrow> None)),
       Marshal_SignResponse = (\<lambda>r.
          Inr ((case RespSignature r of None \<Rightarrow> [0] | Some sg \<Rightarrow> [1, SigType sg] @ put (SigData sg))
               @ put (str_bytes (RespErr r)))),
       Unmarshal_SignResponse = (\<lambda>b. decoded
          (case b of
             [] \<Rightarrow> None
           | tag # r \<Rightarrow>
               (if tag = 0 then
                  (case gets 1 r of
                     Some ([e], r1) \<Rightarrow> Some \<lparr> RespSignature = None, RespErr = bytes_str e \<rparr>
                   | _ \<Rightarrow> None)
                else
                  (case r of
                     [] \<Rightarrow> None
                   | t # r1 \<Rightarrow>
                       (case gets 2 r1 of
                          Some ([d, e], r2) \<Rightarrow>
                            Some \<lparr> RespSignature = Some \<lparr> SigType = t, SigData = d \<rparr>,
                                   RespErr = bytes_str e \<rparr>
                        | _ \<Rightarrow> None))))),
       Marshal_ListWalletResponse = (\<lambda>r.
          Inr (of_nat (length (Addresses r)) # concat (map (\<lambda>a. put (str_bytes a)) (Addresses r))
               @ put (str_bytes (ListErr r)))),
       Unmarshal_ListWalletResponse = (\<lambda>b. decoded
          (case b of
             [] \<Rightarrow> None
           | n # r \<Rightarrow>
               (case gets (unat n) r of
                  None \<Rightarrow> None
                | Some (as, r1) \<Rightarrow>
                    (case gets 1 r1 of
                       Some ([e], r2) \<Rightarrow>
                         Some \<lparr> Addresses = map bytes_str as, ListErr = bytes_str e \<rparr>
                     | _ \<Rightarrow> None)))) \<rparr>"

definition replying :: "command option \<Rightarrow> unit websocket" where
  "replying reply =
     \<lparr> WriteJSON = (\<lambda>cmd k. (None, k)), ReadJSON = (\<lambda>k. (map_option Inr reply, k)) \<rparr>"

text \<open>
  A queue holding one request of the address f1abc, and a submission for the same
  payload that names another address and carries that address's signature.
\<close>

definition q1 :: OfflineWallet where
  "q1 = snd (WalletSign_register q0 ''f1abc'' [1, 2, 3, 4] chain_meta [1, 2, 3])"

definition evil_message :: SignedMessage where
  "evil_message =
     \<lparr> Unsigned = \<lparr> Address = ''f1evil'', ToSign = [1, 2, 3, 4],
                     Meta = \<lparr> MetaType = ''message'', MetaExtra = [] \<rparr> \<rparr>,
       Sig = demo_sign ''f1evil'' [1, 2, 3, 4] \<rparr>"

text \<open>
  Concrete servers for the runs below. \<open>alice\<close> is a registered client that
  advertises f1abc over a connection to a \<open>connectCmd\<close> whose wallet holds f1abc;
  \<open>stale\<close> advertises f1abc too, but the wallet behind it holds no key. The byte
  lists are the encodings, under the stand-in codec, of the sign request for f1abc and
  the payload 1, 2, 3, 4, of the response carrying the signature, and of the response
  carrying the error "key not found".
\<close>

definition alice :: "(command list \<times> Address list) clientWallet" where
  "alice = \<lparr> addresses = [''f1abc''], conn = ([], [''f1abc'']), close = True \<rparr>"

definition srv1 :: "(command list \<times> Address list) WalletServer" where
  "srv1 = \<lparr> mutex = False, clients = [(0, alice)], allocs = 1 \<rparr>"

definition stale :: "(command list \<times> Address list) clientWallet" where
  "stale = \<lparr> addresses = [''f1abc''], conn = ([], []), close = True \<rparr>"

definition srv3 :: "(command list \<times> Address list) WalletServer" where
  "srv3 = \<lparr> mutex = False, clients = [(0, stale)], allocs = 1 \<rparr>"

definition sign_failure_bytes :: bytes where
  "sign_failure_bytes = [0, 13, 107, 101, 121, 32, 110, 111, 116, 32, 102, 111, 117, 110, 100]"

definition sign_request_bytes :: bytes where
  "sign_request_bytes = [5, 102, 49, 97, 98, 99, 4, 1, 2, 3, 4, 7, 109, 101, 115, 115, 97, 103, 101, 0]"

definition sign_response_bytes :: bytes where
  "sign_response_bytes = [1, 1, 4, 1, 2, 3, 4, 0]"

text \<open>
  A correct submission for the entry of \<open>q1\<close>, and a server with two clients whose
  connections are of the kind \<open>replying\<close>.
\<close>

definition good_message :: SignedMessage where
  "good_message =
     \<lparr> Unsigned = \<lparr> Address = ''f1abc'', ToSign = [1, 2, 3, 4],
                     Meta = \<lparr> MetaType = ''message'', MetaExtra = [] \<rparr> \<rparr>,
       Sig = demo_sign ''f1abc'' [1, 2, 3, 4] \<rparr>"

definition srv2 :: "unit WalletServer" where
  "srv2 = \<lparr> mutex = False,
            clients = [(0, \<lparr> addresses = [''f1abc''], conn = (), close = True \<rparr>),
                       (1, \<lparr> addresses = [''f3xyz''], conn = (), close = True \<rparr>)],
            allocs = 2 \<rparr>"

text \<open>
  What happens around a waiting \<open>WalletSign\<close> in the schedule of the late
  submission: the timer ends the wait, and before the deferred cleanup takes the
  mutex a \<open>SubmitSignature\<close> with the correctly signed message runs on the queue.
  Nobody receives on the entry's channel any more.
\<close>

definition late_submission :: "nat \<Rightarrow> OfflineWallet \<Rightarrow> select \<times> OfflineWallet" where
  "late_submission k q = (TimeAfter, snd (snd (SubmitSignature demo_ext (\<lambda>k. False) q good_message)))"

section \<open>Properties of the decorator\<close>

text \<open>
  Claim C8. For every wrapped backend \<open>w\<close>, every backend state \<open>s\<close> and every input,
  \<open>New\<close> and \<open>Export\<close> of the safe wallet return one fixed error each and leave the
  backend's state untouched, and \<open>Has\<close>, \<open>List\<close>, \<open>Sign\<close> and \<open>Delete\<close> return exactly
  the result (value or error, and state after the call) of the wrapped backend.
\<close>

theorem SafeWallet_restricts_and_delegates:
  "WalletNew (SafeWallet w) keyType s =
      (Inl (Err ''safe wallet is enabled, use import instead of new''), s)
   \<and> WalletExport (SafeWallet w) a s = (Inl (Err ''DO NOT EXPORT THIS WALLET''), s)
   \<and> WalletHas (SafeWallet w) a s = WalletHas w a s
   \<and> WalletList (SafeWallet w) s = WalletList w s
   \<and> WalletSign (SafeWallet w) a toSign meta s = WalletSign w a toSign meta s
   \<and> WalletDelete (SafeWallet w) a s = WalletDelete w a s"
  by (simp add: SafeWallet_def SafeWallet_WalletNew_def SafeWallet_WalletExport_def
      SafeWallet_WalletHas_def SafeWallet_WalletList_def SafeWallet_WalletSign_def
      SafeWallet_WalletDelete_def)

text \<open>
  Claim C10. \<open>Import\<close> of the safe wallet is the wrapped backend's \<open>Import\<close>: same
  result and same state after the call, for every backend, key and state, while
  \<open>New\<close> and \<open>Export\<close> on the same wallet fail.
\<close>

theorem SafeWallet_import_delegates:
  "WalletImport (SafeWallet w) info s = WalletImport w info s
   \<and> fst (WalletNew (SafeWallet w) keyType s) \<noteq> Inr addr
   \<and> fst (WalletExport (SafeWallet w) a s) \<noteq> Inr ki"
  by (simp add: SafeWallet_def SafeWallet_WalletImport_def SafeWallet_WalletNew_def
      SafeWallet_WalletExport_def)

section \<open>Properties of the router\<close>

lemma count_list_distinct: "distinct xs \<Longrightarrow> count_list xs a = (if a \<in> set xs then 1 else 0)"
  by (induction xs) auto

lemma WalletList_inner_inv:
  "seen = set out \<Longrightarrow> distinct out \<Longrightarrow>
   fst (WalletList_inner l (seen, out)) = set (snd (WalletList_inner l (seen, out)))
   \<and> distinct (snd (WalletList_inner l (seen, out)))
   \<and> set (snd (WalletList_inner l (seen, out))) = set out \<union> set l"
proof (induction l arbitrary: seen out)
  case Nil
  then show ?case by simp
next
  case (Cons a l)
  show ?case
  proof (cases "a \<in> seen")
    case True
    with Cons.IH[OF Cons.prems] Cons.prems show ?thesis by auto
  next
    case False
    have 1: "insert a seen = set (out @ [a])" using Cons.prems by simp
    have 2: "distinct (out @ [a])" using Cons.prems False by simp
    from Cons.IH[OF 1 2] False show ?thesis by auto
  qed
qed

lemma WalletList_outer_union:
  "list_all lists ws \<Longrightarrow> seen = set out \<Longrightarrow> distinct out \<Longrightarrow>
   \<exists>out'. fst (WalletList_outer ws (seen, out)) = Inr out' \<and> distinct out'
     \<and> set out' = set out \<union> (\<Union>b\<in>set ws. set (reported b))"
proof (induction ws arbitrary: seen out)
  case Nil
  then show ?case by simp
next
  case (Cons b ws)
  obtain w s where b: "b = (w, s)" by (cases b)
  from Cons.prems(1) b obtain l s' where l: "WalletList w s = (Inr l, s')"
    by (cases "WalletList w s"; cases "fst (WalletList w s)") (auto simp: lists_def)
  obtain seen1 out1 where io: "WalletList_inner l (seen, out) = (seen1, out1)"
    by (cases "WalletList_inner l (seen, out)")
  from WalletList_inner_inv[OF Cons.prems(2,3), of l] io
  have inv: "seen1 = set out1" "distinct out1" "set out1 = set out \<union> set l" by auto
  from Cons.prems(1) have "list_all lists ws" by simp
  from Cons.IH[OF this inv(1,2)] obtain out' where
    o: "fst (WalletList_outer ws (seen1, out1)) = Inr out'" "distinct out'"
       "set out' = set out1 \<union> (\<Union>b\<in>set ws. set (reported b))" by blast
  have rep: "reported b = l" using b l by (simp add: reported_def)
  show ?case using o inv(3) rep b l io
    by (auto simp: split_beta)
qed

lemma MultiWallet_WalletList_union:
  "list_all lists m \<Longrightarrow>
   \<exists>out. fst (MultiWallet_WalletList m) = Inr out
     \<and> (\<forall>a. count_list out a = (if \<exists>b\<in>set m. a \<in> set (reported b) then 1 else 0))"
proof -
  assume "list_all lists m"
  from WalletList_outer_union[OF this, of "{}" "[]"]
  obtain out where o: "fst (MultiWallet_WalletList m) = Inr out" "distinct out"
     "set out = (\<Union>b\<in>set m. set (reported b))" by (auto simp: MultiWallet_WalletList_def)
  show ?thesis using o count_list_distinct[OF o(2)] by auto
qed


lemma MultiWallet_WalletNew_first:
  "list_all (rejects_new keyType) pre \<Longrightarrow> WalletNew w keyType s = (Inr a, s') \<Longrightarrow>
   fst (MultiWallet_WalletNew (pre @ (w, s) # post) keyType) = Inr a
   \<and> drop (length pre) (snd (MultiWallet_WalletNew (pre @ (w, s) # post) keyType)) = (w, s') # post"
proof (induction pre)
  case Nil
  then show ?case by simp
next
  case (Cons b pre)
  obtain w0 s0 where b: "b = (w0, s0)" by (cases b)
  from Cons.prems(1) b obtain e s0' where l: "WalletNew w0 keyType s0 = (Inl e, s0')"
    by (cases "WalletNew w0 keyType s0"; cases "fst (WalletNew w0 keyType s0)") (auto simp: rejects_new_def)
  from Cons have "fst (MultiWallet_WalletNew (pre @ (w, s) # post) keyType) = Inr a
   \<and> drop (length pre) (snd (MultiWallet_WalletNew (pre @ (w, s) # post) keyType)) = (w, s') # post" by simp
  then show ?case using b l by (auto simp: split_beta)
qed

lemma MultiWallet_WalletNew_none:
  "list_all (rejects_new keyType) ws \<Longrightarrow>
   fst (MultiWallet_WalletNew ws keyType) = Inl (Err (''no wallet backends supporting key type: '' @ keyType))"
proof (induction ws)
  case Nil
  then show ?case by simp
next
  case (Cons b ws)
  obtain w0 s0 where b: "b = (w0, s0)" by (cases b)
  from Cons.prems(1) b obtain e s0' where l: "WalletNew w0 keyType s0 = (Inl e, s0')"
    by (cases "WalletNew w0 keyType s0"; cases "fst (WalletNew w0 keyType s0)") (auto simp: rejects_new_def)
  from Cons show ?case using b l by (auto simp: split_beta)
qed


text \<open>
  Claim C6. Whenever every backend of the router answers \<open>WalletList\<close> with a list,
  the router's \<open>WalletList\<close> returns a list in which every address reported by some
  backend occurs exactly once and no other address occurs. On the backends
  A holding addr1 and B holding addr1 and addr2 the result is addr1, addr2.
\<close>

theorem MultiWallet_WalletList_dedup_union:
  "list_all lists m \<Longrightarrow>
   \<exists>out. fst (MultiWallet_WalletList m) = Inr out
     \<and> (\<forall>a. count_list out a = (if \<exists>b\<in>set m. a \<in> set (reported b) then 1 else 0))"
  by (rule MultiWallet_WalletList_union)

theorem MultiWallet_WalletList_dedup_union_witness:
  "list_all lists [(MemWallet, [''addr1'']), (MemWallet, [''addr1'', ''addr2''])]
   \<and> (\<exists>out. fst (MultiWallet_WalletList [(MemWallet, [''addr1'']), (MemWallet, [''addr1'', ''addr2''])]) = Inr out
        \<and> out = [''addr1'', ''addr2'']
        \<and> count_list out ''addr1'' = 1 \<and> count_list out ''addr2'' = 1 \<and> count_list out ''addr3'' = 0)"
proof -
  have h: "list_all lists [(MemWallet, [''addr1'']), (MemWallet, [''addr1'', ''addr2''])]"
    by (simp add: lists_def MemWallet_def)
  have v: "fst (MultiWallet_WalletList [(MemWallet, [''addr1'']), (MemWallet, [''addr1'', ''addr2''])])
      = Inr [''addr1'', ''addr2'']"
    by (simp add: MultiWallet_WalletList_def MemWallet_def)
  from MultiWallet_WalletList_dedup_union [OF h] obtain out where
    o: "fst (MultiWallet_WalletList [(MemWallet, [''addr1'']), (MemWallet, [''addr1'', ''addr2''])]) = Inr out"
    and c: "\<forall>a. count_list out a =
       (if \<exists>b\<in>set [(MemWallet, [''addr1'']), (MemWallet, [''addr1'', ''addr2''])]. a \<in> set (reported b)
        then 1 else 0)"
    by blast
  have "count_list out ''addr1'' = 1" "count_list out ''addr2'' = 1" "count_list out ''addr3'' = 0"
    using c by (simp_all add: reported_def MemWallet_def)
  with h o v show ?thesis by simp
qed

text \<open>
  Claim C7. The router's \<open>WalletNew\<close> asks the backends in list order. If the
  backends before \<open>w\<close> all reject and \<open>w\<close> succeeds, the router returns the address
  \<open>w\<close> created, \<open>w\<close> is left in the state after its call, and the backends after \<open>w\<close>
  are left as they were (they are not called). If every backend rejects, the router
  returns the error "no wallet backends supporting key type: " followed by the key type.
  With a safe (restricted) wallet before an in-memory keystore, the keystore's new
  address is returned.
\<close>

theorem MultiWallet_WalletNew_first_success:
  "(list_all (rejects_new keyType) pre \<and> WalletNew w keyType s = (Inr a, s') \<longrightarrow>
      fst (MultiWallet_WalletNew (pre @ (w, s) # post) keyType) = Inr a
      \<and> drop (length pre) (snd (MultiWallet_WalletNew (pre @ (w, s) # post) keyType)) = (w, s') # post)
   \<and> (list_all (rejects_new keyType) ws \<longrightarrow>
      fst (MultiWallet_WalletNew ws keyType)
        = Inl (Err (''no wallet backends supporting key type: '' @ keyType)))"
proof -
  have first: "list_all (rejects_new keyType) pre \<and> WalletNew w keyType s = (Inr a, s') \<longrightarrow>
      fst (MultiWallet_WalletNew (pre @ (w, s) # post) keyType) = Inr a
      \<and> drop (length pre) (snd (MultiWallet_WalletNew (pre @ (w, s) # post) keyType)) = (w, s') # post"
    by (simp add: MultiWallet_WalletNew_first)
  have none: "list_all (rejects_new keyType) ws \<longrightarrow>
      fst (MultiWallet_WalletNew ws keyType)
        = Inl (Err (''no wallet backends supporting key type: '' @ keyType))"
    by (simp add: MultiWallet_WalletNew_none)
  from first none show ?thesis by (rule conjI)
qed

theorem MultiWallet_WalletNew_first_success_witness:
  "list_all (rejects_new ''bls'') [(SafeWallet MemWallet, [''addr1''])]
   \<and> WalletNew MemWallet ''bls'' [''addr2''] = (Inr ''blsk'', [''addr2'', ''blsk''])
   \<and> fst (MultiWallet_WalletNew [(SafeWallet MemWallet, [''addr1'']), (MemWallet, [''addr2'']), (MemWallet, [])] ''bls'')
       = Inr ''blsk''
   \<and> drop 1 (snd (MultiWallet_WalletNew [(SafeWallet MemWallet, [''addr1'']), (MemWallet, [''addr2'']), (MemWallet, [])] ''bls''))
       = [(MemWallet, [''addr2'', ''blsk'']), (MemWallet, [])]
   \<and> list_all (rejects_new ''bls'') [(SafeWallet MemWallet, [''addr1'']), (SafeWallet MemWallet, [])]
   \<and> fst (MultiWallet_WalletNew [(SafeWallet MemWallet, [''addr1'']), (SafeWallet MemWallet, [])] ''bls'')
       = Inl (Err ''no wallet backends supporting key type: bls'')"
proof -
  have h1: "list_all (rejects_new ''bls'') [(SafeWallet MemWallet, [''addr1''])]"
    by (simp add: rejects_new_def SafeWallet_def SafeWallet_WalletNew_def)
  have h2: "WalletNew MemWallet ''bls'' [''addr2''] = (Inr ''blsk'', [''addr2'', ''blsk''])"
    by (simp add: MemWallet_def Let_def)
  have h3: "list_all (rejects_new ''bls'') [(SafeWallet MemWallet, [''addr1'']), (SafeWallet MemWallet, [])]"
    by (simp add: rejects_new_def SafeWallet_def SafeWallet_WalletNew_def)
  show ?thesis
    using h1 h2 h3
      MultiWallet_WalletNew_first_success [of "''bls''" "[(SafeWallet MemWallet, [''addr1''])]"
        MemWallet "[''addr2'']" "''blsk''" "[''addr2'', ''blsk'']" "[(MemWallet, [])]"
        "[(SafeWallet MemWallet, [''addr1'']), (SafeWallet MemWallet, [])]"]
    by simp
qed

section \<open>Properties of the offline queue\<close>

lemma set_update_subset: "set (AList.update k v al) \<subseteq> insert (k, v) (set al)"
  by (induction al) auto

lemma set_delete_subset: "set (AList.delete k al) \<subseteq> set al"
  by (auto simp: AList.delete_eq)

lemma well_keyed_update:
  assumes "well_keyed x ow" and "distinct (map fst p)"
    and "list_all (\<lambda>(c, m). Address (msg m) = a \<and> CidFromBytes x (ToSign (msg m)) = Inr c) p"
  shows "well_keyed x (ow \<lparr> unsigned := AList.update a p (unsigned ow) \<rparr>)"
proof -
  have d: "distinct (map fst (AList.update a p (unsigned ow)))"
    using assms(1) by (simp add: well_keyed_def distinct_update)
  have "\<forall>e \<in> set (AList.update a p (unsigned ow)).
      (case e of (a, p) \<Rightarrow> distinct (map fst p)
           \<and> list_all (\<lambda>(c, m). Address (msg m) = a \<and> CidFromBytes x (ToSign (msg m)) = Inr c) p)"
  proof
    fix e assume "e \<in> set (AList.update a p (unsigned ow))"
    then have "e = (a, p) \<or> e \<in> set (unsigned ow)" using set_update_subset by fastforce
    then show "case e of (a, p) \<Rightarrow> distinct (map fst p)
           \<and> list_all (\<lambda>(c, m). Address (msg m) = a \<and> CidFromBytes x (ToSign (msg m)) = Inr c) p"
      using assms by (auto simp: well_keyed_def list_all_iff)
  qed
  then show ?thesis using d by (simp add: well_keyed_def list_all_iff)
qed

lemma well_keyed_inner:
  "well_keyed x ow \<Longrightarrow> map_of (unsigned ow) a = Some p \<Longrightarrow>
   distinct (map fst p)
   \<and> list_all (\<lambda>(c, m). Address (msg m) = a \<and> CidFromBytes x (ToSign (msg m)) = Inr c) p"
  by (auto simp: well_keyed_def list_all_iff dest!: map_of_SomeD)

lemma well_keyed_cleanup: "well_keyed x ow \<Longrightarrow> well_keyed x (WalletSign_cleanup ow a c)"
proof (cases "map_of (unsigned ow) a")
  case None
  assume "well_keyed x ow"
  with None show ?thesis by (simp add: WalletSign_cleanup_def)
next
  case (Some p)
  assume w: "well_keyed x ow"
  from well_keyed_inner[OF w Some]
  have "distinct (map fst (AList.delete c p))"
    and "list_all (\<lambda>(c, m). Address (msg m) = a \<and> CidFromBytes x (ToSign (msg m)) = Inr c) (AList.delete c p)"
    using set_delete_subset[of c p] by (auto simp: distinct_delete list_all_iff)
  from well_keyed_update[OF w this] Some show ?thesis by (simp add: WalletSign_cleanup_def)
qed

lemma pending_cleanup: "pending (WalletSign_cleanup ow a c) a c = None"
  by (cases "map_of (unsigned ow) a")
     (simp_all add: pending_def WalletSign_cleanup_def update_conv' delete_conv')

lemma well_keyed_not_listed:
  assumes w: "well_keyed x ow" and n: "pending ow a c = None"
    and m: "m \<in> set (concat (map (\<lambda>(a, p). map (\<lambda>(c, m). msg m) p) (unsigned ow)))"
  shows "\<not> (Address m = a \<and> CidFromBytes x (ToSign m) = Inr c)"
proof
  assume k: "Address m = a \<and> CidFromBytes x (ToSign m) = Inr c"
  from m obtain a' p c' e where in1: "(a', p) \<in> set (unsigned ow)" and in2: "(c', e) \<in> set p"
    and e: "msg e = m" by auto
  from w in1 in2 have "Address (msg e) = a'" "CidFromBytes x (ToSign (msg e)) = Inr c'"
    and dp: "distinct (map fst p)" and du: "distinct (map fst (unsigned ow))"
    by (auto simp: well_keyed_def list_all_iff)
  with k e have "a' = a" "c' = c" by auto
  with in1 in2 du dp have "map_of (unsigned ow) a = Some p" "map_of p c = Some e" by auto
  with n show False by (simp add: pending_def)
qed


lemma well_keyed_chans [simp]: "well_keyed x (ow \<lparr> chans := n \<rparr>) = well_keyed x ow"
  by (simp add: well_keyed_def)

lemma fst_WalletSign_register [simp]: "fst (WalletSign_register ow signer toSign meta c) = chans ow"
  by (simp add: WalletSign_register_def Let_def)

lemma pending_register:
  "pending (snd (WalletSign_register ow signer toSign meta c)) signer c =
     Some \<lparr> msg = \<lparr> Address = signer, ToSign = toSign,
                    Meta = \<lparr> MetaType = Type meta, MetaExtra = Extra meta \<rparr> \<rparr>,
            ch = chans ow \<rparr>"
  by (simp add: WalletSign_register_def Let_def pending_def update_conv')

lemma well_keyed_register:
  assumes w: "well_keyed x ow" and c: "CidFromBytes x toSign = Inr c"
  shows "well_keyed x (snd (WalletSign_register ow signer toSign meta c))"
proof -
  define u where "u = (case map_of (unsigned ow) signer of
                 None \<Rightarrow> AList.update signer [] (unsigned ow)
               | Some p \<Rightarrow> unsigned ow)"
  define p where "p = (case map_of u signer of None \<Rightarrow> [] | Some p \<Rightarrow> p)"
  define e where "e = \<lparr> msg = \<lparr> Address = signer, ToSign = toSign,
                         Meta = \<lparr> MetaType = Type meta, MetaExtra = Extra meta \<rparr> \<rparr>,
                ch = chans ow \<rparr>"
  have wu: "well_keyed x (ow \<lparr> unsigned := u \<rparr>)"
  proof (cases "map_of (unsigned ow) signer")
    case None
    with well_keyed_update[OF w, of "[]" signer] show ?thesis by (simp add: u_def)
  next
    case (Some q)
    with w show ?thesis by (simp add: u_def)
  qed
  have ip: "distinct (map fst p)
     \<and> list_all (\<lambda>(c, m). Address (msg m) = signer \<and> CidFromBytes x (ToSign (msg m)) = Inr c) p"
  proof (cases "map_of u signer")
    case None
    then show ?thesis by (simp add: p_def)
  next
    case (Some q)
    with well_keyed_inner[OF wu, of signer q] show ?thesis by (simp add: p_def)
  qed
  have "\<forall>z \<in> set (AList.update c e p). z = (c, e) \<or> z \<in> set p"
    using set_update_subset[of c e p] by auto
  with ip c have "distinct (map fst (AList.update c e p))"
     "list_all (\<lambda>(c, m). Address (msg m) = signer \<and> CidFromBytes x (ToSign (msg m)) = Inr c)
        (AList.update c e p)"
    by (auto simp: distinct_update list_all_iff e_def)
  from well_keyed_update[OF wu this]
  show ?thesis by (simp add: WalletSign_register_def Let_def u_def p_def e_def)
qed

text \<open>
  Claim C9. When the payload does not parse as a content identifier, \<open>WalletSign\<close>
  returns the parse error and leaves the queue as it was, whatever the meta type is
  (the identifier is checked before the meta type); when it parses and the meta type
  is not the chain-message type, \<open>WalletSign\<close> returns "only MTChainMsg is supported"
  and leaves the queue as it was. In neither case does the call reach the wait.
  Only when both checks pass is an entry filed, under the signer and the content
  identifier, holding the signer, the payload and the meta data.
\<close>

theorem WalletSign_rejects_invalid_cid_first:
  "(CidFromBytes x toSign = Inl err \<longrightarrow>
      OfflineWallet_WalletSign x wait ow signer toSign meta = (Some (Inl err), ow))
   \<and> (CidFromBytes x toSign = Inr c \<and> Type meta \<noteq> MTChainMsg x \<longrightarrow>
      OfflineWallet_WalletSign x wait ow signer toSign meta
        = (Some (Inl (Err ''only MTChainMsg is supported'')), ow))
   \<and> (CidFromBytes x toSign = Inr c \<and> Type meta = MTChainMsg x \<and> \<not> lock ow \<longrightarrow>
      OfflineWallet_WalletSign x wait ow signer toSign meta
        = (case wait (chans ow) (snd (WalletSign_register ow signer toSign meta c)) of
             (sel, ow2) \<Rightarrow>
               if lock ow2 then (None, ow2)
               else (Some (case sel of
                             TimeAfter \<Rightarrow> Inl (Err ''timeout to wait to submit signature'')
                           | Recv sig \<Rightarrow> Inr sig),
                     WalletSign_cleanup ow2 signer c))
      \<and> pending (snd (WalletSign_register ow signer toSign meta c)) signer c
          = Some \<lparr> msg = \<lparr> Address = signer, ToSign = toSign,
                          Meta = \<lparr> MetaType = Type meta, MetaExtra = Extra meta \<rparr> \<rparr>,
                   ch = chans ow \<rparr>)"
proof -
  obtain ow1 where r: "WalletSign_register ow signer toSign meta c = (chans ow, ow1)"
    by (simp add: prod_eq_iff)
  obtain sel ow2 where wt: "wait (chans ow) ow1 = (sel, ow2)"
    by (cases "wait (chans ow) ow1")
  have p: "pending ow1 signer c
          = Some \<lparr> msg = \<lparr> Address = signer, ToSign = toSign,
                          Meta = \<lparr> MetaType = Type meta, MetaExtra = Extra meta \<rparr> \<rparr>,
                   ch = chans ow \<rparr>"
    using pending_register[of ow signer toSign meta c] r by simp
  show ?thesis
    by (simp add: OfflineWallet_WalletSign_def r wt p)
qed


theorem WalletSign_rejects_invalid_cid_first_witness:
  "CidFromBytes demo_ext [0, 7] = Inl (Err ''invalid cid'')
   \<and> OfflineWallet_WalletSign demo_ext (\<lambda>k q. (TimeAfter, q)) q0 ''f1abc'' [0, 7]
        \<lparr> Type = ''bogus'', Extra = [] \<rparr> = (Some (Inl (Err ''invalid cid'')), q0)
   \<and> CidFromBytes demo_ext [1, 2, 3, 4] = Inr [1, 2, 3]
   \<and> Type \<lparr> Type = ''bogus'', Extra = [] \<rparr> \<noteq> MTChainMsg demo_ext
   \<and> OfflineWallet_WalletSign demo_ext (\<lambda>k q. (TimeAfter, q)) q0 ''f1abc'' [1, 2, 3, 4]
        \<lparr> Type = ''bogus'', Extra = [] \<rparr> = (Some (Inl (Err ''only MTChainMsg is supported'')), q0)
   \<and> Type chain_meta = MTChainMsg demo_ext \<and> \<not> lock q0
   \<and> pending (snd (WalletSign_register q0 ''f1abc'' [1, 2, 3, 4] chain_meta [1, 2, 3])) ''f1abc'' [1, 2, 3]
        = Some \<lparr> msg = \<lparr> Address = ''f1abc'', ToSign = [1, 2, 3, 4],
                        Meta = \<lparr> MetaType = ''message'', MetaExtra = [] \<rparr> \<rparr>, ch = 0 \<rparr>"
proof -
  have h1: "CidFromBytes demo_ext [0, 7] = Inl (Err ''invalid cid'')"
    by (simp add: demo_ext_def)
  have h2: "CidFromBytes demo_ext [1, 2, 3, 4] = Inr [1, 2, 3]"
    by (simp add: demo_ext_def)
  have h3: "Type \<lparr> Type = ''bogus'', Extra = [] \<rparr> \<noteq> MTChainMsg demo_ext"
    by (simp add: demo_ext_def)
  have h4: "Type chain_meta = MTChainMsg demo_ext \<and> \<not> lock q0"
    by (simp add: demo_ext_def chain_meta_def q0_def)
  show ?thesis
    using h1 h2 h3 h4
      WalletSign_rejects_invalid_cid_first [of demo_ext "[0, 7]" "Err ''invalid cid''"
        "\<lambda>k q. (TimeAfter, q)" q0 "''f1abc''" "\<lparr> Type = ''bogus'', Extra = [] \<rparr>" "[]"]
      WalletSign_rejects_invalid_cid_first [of demo_ext "[1, 2, 3, 4]" "Err ''x''"
        "\<lambda>k q. (TimeAfter, q)" q0 "''f1abc''" "\<lparr> Type = ''bogus'', Extra = [] \<rparr>" "[1, 2, 3]"]
      WalletSign_rejects_invalid_cid_first [of demo_ext "[1, 2, 3, 4]" "Err ''x''"
        "\<lambda>k q. (TimeAfter, q)" q0 "''f1abc''" chain_meta "[1, 2, 3]"]
    by (simp add: q0_def chain_meta_def)
qed

text \<open>
  What \<open>WalletSign\<close> does when the mutex is free at the end of the wait: the call
  returns, with the timeout error when the timer ended the wait and with the
  received signature otherwise, and in both cases the queue after the call has no
  entry under (signer, content identifier), and \<open>GetPendingMessages\<close> on it lists no
  message of that signer and content identifier.
\<close>

lemma WalletSign_timeout_and_cleanup:
  assumes "CidFromBytes x toSign = Inr c" and "Type meta = MTChainMsg x" and "\<not> lock ow"
    and "wait (chans ow) (snd (WalletSign_register ow signer toSign meta c)) = (sel, ow2)"
    and "\<not> lock ow2" and "well_keyed x ow2"
  shows "\<exists>r ow3 ms. OfflineWallet_WalletSign x wait ow signer toSign meta = (Some r, ow3)
      \<and> r = (case sel of TimeAfter \<Rightarrow> Inl (Err ''timeout to wait to submit signature'')
                        | Recv sig \<Rightarrow> Inr sig)
      \<and> pending ow3 signer c = None
      \<and> GetPendingMessages ow3 = Some (Inr ms)
      \<and> list_all (\<lambda>m. \<not> (Address m = signer \<and> CidFromBytes x (ToSign m) = Inr c)) ms"
proof -
  obtain ow1 where r: "WalletSign_register ow signer toSign meta c = (chans ow, ow1)"
    by (simp add: prod_eq_iff)
  with assms(4) have wt: "wait (chans ow) ow1 = (sel, ow2)" by simp
  let ?ow3 = "WalletSign_cleanup ow2 signer c"
  let ?ms = "concat (map (\<lambda>(a, p). map (\<lambda>(c, m). msg m) p) (unsigned ?ow3))"
  have run: "OfflineWallet_WalletSign x wait ow signer toSign meta
      = (Some (case sel of TimeAfter \<Rightarrow> Inl (Err ''timeout to wait to submit signature'')
                        | Recv sig \<Rightarrow> Inr sig), ?ow3)"
    using assms(1,2,3,5) by (simp add: OfflineWallet_WalletSign_def r wt)
  have gone: "pending ?ow3 signer c = None" by (rule pending_cleanup)
  have wk: "well_keyed x ?ow3" using assms(6) by (rule well_keyed_cleanup)
  have l3: "lock ?ow3 = lock ow2"
    by (cases "map_of (unsigned ow2) signer") (simp_all add: WalletSign_cleanup_def)
  have g: "GetPendingMessages ?ow3 = Some (Inr ?ms)"
    using l3 assms(5) by (simp add: GetPendingMessages_def)
  have "list_all (\<lambda>m. \<not> (Address m = signer \<and> CidFromBytes x (ToSign m) = Inr c)) ?ms"
    unfolding list_all_iff using well_keyed_not_listed[OF wk gone] by blast
  with run gone g show ?thesis by blast
qed

lemma WalletSign_timeout_and_cleanup_witness:
  "CidFromBytes demo_ext [1, 2, 3, 4] = Inr [1, 2, 3] \<and> Type chain_meta = MTChainMsg demo_ext
   \<and> \<not> lock q0
   \<and> (\<lambda>k q. (TimeAfter, q)) (chans q0) (snd (WalletSign_register q0 ''f1abc'' [1, 2, 3, 4] chain_meta [1, 2, 3]))
       = (TimeAfter, snd (WalletSign_register q0 ''f1abc'' [1, 2, 3, 4] chain_meta [1, 2, 3]))
   \<and> \<not> lock (snd (WalletSign_register q0 ''f1abc'' [1, 2, 3, 4] chain_meta [1, 2, 3]))
   \<and> well_keyed demo_ext (snd (WalletSign_register q0 ''f1abc'' [1, 2, 3, 4] chain_meta [1, 2, 3]))
   \<and> (\<exists>ow3. OfflineWallet_WalletSign demo_ext (\<lambda>k q. (TimeAfter, q)) q0 ''f1abc'' [1, 2, 3, 4] chain_meta
          = (Some (Inl (Err ''timeout to wait to submit signature'')), ow3)
        \<and> pending ow3 ''f1abc'' [1, 2, 3] = None
        \<and> GetPendingMessages ow3 = Some (Inr []))"
proof -
  let ?ow1 = "snd (WalletSign_register q0 ''f1abc'' [1, 2, 3, 4] chain_meta [1, 2, 3])"
  have h1: "CidFromBytes demo_ext [1, 2, 3, 4] = Inr [1, 2, 3]" by (simp add: demo_ext_def)
  have h2: "Type chain_meta = MTChainMsg demo_ext" by (simp add: demo_ext_def chain_meta_def)
  have h3: "\<not> lock q0" by (simp add: q0_def)
  have h4: "(\<lambda>k q. (TimeAfter, q)) (chans q0) ?ow1 = (TimeAfter, ?ow1)" by simp
  have h5: "\<not> lock ?ow1" by (simp add: WalletSign_register_def q0_def Let_def)
  have h6: "well_keyed demo_ext ?ow1"
    by (simp add: WalletSign_register_def q0_def Let_def well_keyed_def demo_ext_def)
  from WalletSign_timeout_and_cleanup [where x = demo_ext and toSign = "[1, 2, 3, 4]"
      and c = "[1, 2, 3]" and meta = chain_meta and ow = q0 and wait = "\<lambda>k q. (TimeAfter, q)"
      and signer = "''f1abc''" and sel = TimeAfter and ?ow2.0 = ?ow1, OF h1 h2 h3 h4 h5 h6]
  obtain r ow3 ms where
    run: "OfflineWallet_WalletSign demo_ext (\<lambda>k q. (TimeAfter, q)) q0 ''f1abc'' [1, 2, 3, 4] chain_meta
            = (Some r, ow3)"
    and r: "r = Inl (Err ''timeout to wait to submit signature'')"
    and gone: "pending ow3 ''f1abc'' [1, 2, 3] = None"
    and g: "GetPendingMessages ow3 = Some (Inr ms)"
    by auto
  have "snd (OfflineWallet_WalletSign demo_ext (\<lambda>k q. (TimeAfter, q)) q0 ''f1abc'' [1, 2, 3, 4] chain_meta)
      = \<lparr> unsigned = [(''f1abc'', [])], lock = False, chans = 1 \<rparr>"
    by (simp add: OfflineWallet_WalletSign_def demo_ext_def chain_meta_def q0_def
        WalletSign_register_def WalletSign_cleanup_def Let_def)
  with run have "ow3 = \<lparr> unsigned = [(''f1abc'', [])], lock = False, chans = 1 \<rparr>" by simp
  then have "GetPendingMessages ow3 = Some (Inr [])" by (simp add: GetPendingMessages_def)
  with h1 h2 h3 h4 h5 h6 run r gone show ?thesis by simp
qed

lemma q1_eq:
  "q1 = \<lparr> unsigned = [(''f1abc'', [([1, 2, 3],
       \<lparr> msg = \<lparr> Address = ''f1abc'', ToSign = [1, 2, 3, 4],
                        Meta = \<lparr> MetaType = ''message'', MetaExtra = [] \<rparr> \<rparr>, ch = 0 \<rparr>)])],
       lock = False, chans = 1 \<rparr>"
  by (simp add: q1_def q0_def chain_meta_def WalletSign_register_def Let_def)

text \<open>
  What \<open>SubmitSignature\<close> does do: it verifies the signature against the address and
  payload that the submitted message itself carries, returns the error of a failed
  verification and leaves the queue as it was; after a successful verification it
  sends the signature to the first entry, of any address, whose content identifier
  is that of the submitted payload.
\<close>

lemma SubmitSignature_verification_fails:
  assumes "CidFromBytes x (ToSign (Unsigned message)) = Inr cid"
    and "Verify x (Sig message) (Address (Unsigned message)) (ToSign (Unsigned message)) = Some err"
  shows "SubmitSignature x receiving ow message = (Some (Some err), None, ow)"
  using assms by (simp add: SubmitSignature_def)

lemma SubmitSignature_delivers_first_match:
  assumes "CidFromBytes x (ToSign (Unsigned message)) = Inr cid"
    and "Verify x (Sig message) (Address (Unsigned message)) (ToSign (Unsigned message)) = None"
    and "\<not> lock ow"
    and "find (\<lambda>(c, m). c = cid) (concat (map snd (unsigned ow))) = Some (c, e)"
    and "receiving (ch e)"
  shows "SubmitSignature x receiving ow message = (Some None, Some (ch e, Some (Sig message)), ow)"
  using assms by (simp add: SubmitSignature_def)

text \<open>
  Claim C1 says that a submission whose signature fails verification against the
  address and payload recorded in the pending entry is rejected with a verification
  error and leaves the entry intact. The code departs from it. The queue \<open>q1\<close> holds
  one entry, filed by \<open>WalletSign\<close> for the address f1abc and the payload 1, 2, 3, 4,
  with channel 0. The submitted message names the address f1evil and carries
  f1evil's signature of that payload. The signature does not verify against the
  recorded address f1abc, yet \<open>SubmitSignature\<close> returns nil and sends the signature
  on channel 0, to the caller waiting for f1abc's signature.
\<close>

theorem SubmitSignature_accepts_foreign_signer:
  "pending q1 ''f1abc'' [1, 2, 3]
     = Some \<lparr> msg = \<lparr> Address = ''f1abc'', ToSign = [1, 2, 3, 4],
                      Meta = \<lparr> MetaType = ''message'', MetaExtra = [] \<rparr> \<rparr>, ch = 0 \<rparr>
   \<and> Verify demo_ext (Sig evil_message) ''f1abc'' [1, 2, 3, 4] = Some (Err ''invalid signature'')
   \<and> SubmitSignature demo_ext (\<lambda>k. True) q1 evil_message
     = (Some None, Some (0, Some (Sig evil_message)), q1)"
  by (simp add: q1_eq pending_def evil_message_def demo_ext_def demo_sign_def SubmitSignature_def)

text \<open>
  Claim C2 says that a call of \<open>WalletSign\<close> to which no signature is delivered
  within the timeout returns the timeout error, and that the entry is removed on
  every exit path. The code departs from it. \<open>WalletSign\<close> for f1abc and the
  payload 1, 2, 3, 4 files its entry in the empty queue and waits. The timer ends
  the wait; no signature has been delivered. Before the deferred cleanup takes the
  mutex, a \<open>SubmitSignature\<close> for that entry takes it, finds the entry still in the
  map and blocks in its send, on which nobody receives, with the mutex held. The
  deferred \<open>Lock()\<close> then never returns: \<open>WalletSign\<close> returns no timeout error,
  the entry stays in the map, and \<open>GetPendingMessages\<close> never returns either.
\<close>

theorem WalletSign_blocked_by_late_submission:
  "CidFromBytes demo_ext [1, 2, 3, 4] = Inr [1, 2, 3]
   \<and> Type chain_meta = MTChainMsg demo_ext
   \<and> snd (WalletSign_register q0 ''f1abc'' [1, 2, 3, 4] chain_meta [1, 2, 3]) = q1
   \<and> late_submission 0 q1 = (TimeAfter, q1 \<lparr> lock := True \<rparr>)
   \<and> OfflineWallet_WalletSign demo_ext late_submission q0 ''f1abc'' [1, 2, 3, 4] chain_meta
       = (None, q1 \<lparr> lock := True \<rparr>)
   \<and> pending (q1 \<lparr> lock := True \<rparr>) ''f1abc'' [1, 2, 3]
       = Some \<lparr> msg = \<lparr> Address = ''f1abc'', ToSign = [1, 2, 3, 4],
                        Meta = \<lparr> MetaType = ''message'', MetaExtra = [] \<rparr> \<rparr>, ch = 0 \<rparr>
   \<and> GetPendingMessages (q1 \<lparr> lock := True \<rparr>) = None"
proof -
  have a: "CidFromBytes demo_ext [1, 2, 3, 4] = Inr [1, 2, 3]" by (simp add: demo_ext_def)
  have b: "Type chain_meta = MTChainMsg demo_ext" by (simp add: demo_ext_def chain_meta_def)
  have r: "WalletSign_register q0 ''f1abc'' [1, 2, 3, 4] chain_meta [1, 2, 3] = (0, q1)"
    by (simp add: q1_def prod_eq_iff q0_def)
  have l: "late_submission 0 q1 = (TimeAfter, q1 \<lparr> lock := True \<rparr>)"
    by (simp add: late_submission_def q1_eq good_message_def demo_ext_def demo_sign_def
        SubmitSignature_def)
  have w: "OfflineWallet_WalletSign demo_ext late_submission q0 ''f1abc'' [1, 2, 3, 4] chain_meta
       = (None, q1 \<lparr> lock := True \<rparr>)"
    using a b r l by (simp add: OfflineWallet_WalletSign_def q0_def)
  have p: "pending (q1 \<lparr> lock := True \<rparr>) ''f1abc'' [1, 2, 3]
       = Some \<lparr> msg = \<lparr> Address = ''f1abc'', ToSign = [1, 2, 3, 4],
                        Meta = \<lparr> MetaType = ''message'', MetaExtra = [] \<rparr> \<rparr>, ch = 0 \<rparr>"
    by (simp add: q1_eq pending_def)
  have g: "GetPendingMessages (q1 \<lparr> lock := True \<rparr>) = None"
    by (simp add: GetPendingMessages_def)
  from a b r l w p g show ?thesis by simp
qed

section \<open>Properties of the relay\<close>

lemma serve_call_blocked:
  "call io \<lparr> addresses = [], conn = c, close = cl \<rparr>
      \<lparr> Command = CommandListWalletRequest, Data = [] \<rparr> = (None, client)
   \<Longrightarrow> serve j io srv c cl = (None, srv)"
  by (simp add: serve_def)

lemma serve_call_failed:
  "call io \<lparr> addresses = [], conn = c, close = cl \<rparr>
      \<lparr> Command = CommandListWalletRequest, Data = [] \<rparr> = (Some (Inl err), client)
   \<Longrightarrow> serve j io srv c cl = (Some (Some (Err (''list wallets, '' @ error_text err))), srv)"
  by (simp add: serve_def)

lemma serve_wrong_kind:
  "call io \<lparr> addresses = [], conn = c, close = cl \<rparr>
      \<lparr> Command = CommandListWalletRequest, Data = [] \<rparr> = (Some (Inr out), client)
   \<Longrightarrow> Command out \<noteq> CommandListWalletResponse
   \<Longrightarrow> serve j io srv c cl = (Some (Some (Err ''expect list wallet response'')), srv)"
  by (simp add: serve_def)

lemma serve_malformed:
  "call io \<lparr> addresses = [], conn = c, close = cl \<rparr>
      \<lparr> Command = CommandListWalletRequest, Data = [] \<rparr> = (Some (Inr out), client)
   \<Longrightarrow> Command out = CommandListWalletResponse
   \<Longrightarrow> Unmarshal_ListWalletResponse j (Data out) = Inl err
   \<Longrightarrow> serve j io srv c cl = (Some (Some (Err (''failed to decode addresses, '' @ error_text err))), srv)"
  by (simp add: serve_def)

lemma WalletSign_unknown_address:
  "\<not> mutex srv \<Longrightarrow> \<not> list_ex (\<lambda>(p, cw). addrX \<in> set (addresses cw)) (clients srv)
   \<Longrightarrow> WalletServer_WalletSign j io srv addrX toSign meta = (Some (Inl (Err ''wallet not exist'')), srv)"
proof -
  assume m: "\<not> mutex srv" and n: "\<not> list_ex (\<lambda>(p, cw). addrX \<in> set (addresses cw)) (clients srv)"
  from n have "find (\<lambda>(p, c). addrX \<in> set (addresses c)) (clients srv) = None"
    by (auto simp: find_None_iff list_ex_iff)
  with m show ?thesis by (simp add: WalletServer_WalletSign_def)
qed

text \<open>
  Claim C5. Let the reply to the list-wallets request that \<open>serve\<close> sends be absent
  (the call does not return, or returns an error), of another kind than
  list-wallets response, or not decodable as a list-wallets response. Then \<open>serve\<close>
  does not return nil and leaves the server, and with it the registry, as it was.
  So \<open>WalletSign\<close> on the server after that, for an address that no registered
  client advertises, returns the error "wallet not exist".
\<close>

theorem handshake_failure_not_registered:
  assumes "call io \<lparr> addresses = [], conn = c, close = cl \<rparr>
             \<lparr> Command = CommandListWalletRequest, Data = [] \<rparr> = (r, client)"
    and "r = None \<or> (\<exists>err. r = Some (Inl err))
         \<or> (\<exists>out. r = Some (Inr out)
               \<and> (Command out \<noteq> CommandListWalletResponse
                    \<or> (\<exists>err. Unmarshal_ListWalletResponse j (Data out) = Inl err)))"
    and "\<not> mutex srv"
    and "\<not> list_ex (\<lambda>(p, cw). addrX \<in> set (addresses cw)) (clients srv)"
  shows "fst (serve j io srv c cl) \<noteq> Some None
     \<and> snd (serve j io srv c cl) = srv
     \<and> WalletServer_WalletSign j io' (snd (serve j io srv c cl)) addrX toSign meta
         = (Some (Inl (Err ''wallet not exist'')), srv)"
proof -
  have s: "fst (serve j io srv c cl) \<noteq> Some None \<and> snd (serve j io srv c cl) = srv"
  proof (cases r)
    case None
    with assms(1) show ?thesis by (simp add: serve_call_blocked)
  next
    case (Some v)
    show ?thesis
    proof (cases v)
      case (Inl err)
      with Some assms(1) show ?thesis by (simp add: serve_call_failed)
    next
      case (Inr out)
      with Some assms(2) have bad: "Command out \<noteq> CommandListWalletResponse
          \<or> (\<exists>err. Unmarshal_ListWalletResponse j (Data out) = Inl err)" by simp
      show ?thesis
      proof (cases "Command out = CommandListWalletResponse")
        case False
        with Some Inr assms(1) show ?thesis by (simp add: serve_wrong_kind)
      next
        case True
        with bad obtain err where "Unmarshal_ListWalletResponse j (Data out) = Inl err" by blast
        with True Some Inr assms(1) show ?thesis by (simp add: serve_malformed)
      qed
    qed
  qed
  with WalletSign_unknown_address[OF assms(3,4)] show ?thesis by simp
qed


theorem handshake_failure_not_registered_witness:
  "call (replying None) \<lparr> addresses = [], conn = (), close = False \<rparr>
      \<lparr> Command = CommandListWalletRequest, Data = [] \<rparr>
     = (None, \<lparr> addresses = [], conn = (), close = False \<rparr>)
   \<and> call (replying (Some \<lparr> Command = 3, Data = [] \<rparr>)) \<lparr> addresses = [], conn = (), close = False \<rparr>
      \<lparr> Command = CommandListWalletRequest, Data = [] \<rparr>
     = (Some (Inr \<lparr> Command = 3, Data = [] \<rparr>), \<lparr> addresses = [], conn = (), close = False \<rparr>)
   \<and> Command \<lparr> Command = 3, Data = [] \<rparr> \<noteq> CommandListWalletResponse
   \<and> call (replying (Some \<lparr> Command = 1, Data = [9] \<rparr>)) \<lparr> addresses = [], conn = (), close = False \<rparr>
      \<lparr> Command = CommandListWalletRequest, Data = [] \<rparr>
     = (Some (Inr \<lparr> Command = 1, Data = [9] \<rparr>), \<lparr> addresses = [], conn = (), close = False \<rparr>)
   \<and> Unmarshal_ListWalletResponse demo_json (Data \<lparr> Command = 1, Data = [9] \<rparr>)
     = Inl (Err ''unexpected end of JSON input'')
   \<and> \<not> mutex (NewWalletServer :: unit WalletServer)
   \<and> \<not> list_ex (\<lambda>(p, cw). ''f1abc'' \<in> set (addresses cw)) (clients (NewWalletServer :: unit WalletServer))
   \<and> serve demo_json (replying None) NewWalletServer () False = (None, NewWalletServer)
   \<and> serve demo_json (replying (Some \<lparr> Command = 3, Data = [] \<rparr>)) NewWalletServer () False
     = (Some (Some (Err ''expect list wallet response'')), NewWalletServer)
   \<and> serve demo_json (replying (Some \<lparr> Command = 1, Data = [9] \<rparr>)) NewWalletServer () False
     = (Some (Some (Err ''failed to decode addresses, unexpected end of JSON input'')), NewWalletServer)
   \<and> WalletServer_WalletSign demo_json (replying None)
        (snd (serve demo_json (replying None) NewWalletServer () False)) ''f1abc'' [1, 2, 3, 4] chain_meta
     = (Some (Inl (Err ''wallet not exist'')), NewWalletServer)
   \<and> WalletServer_WalletSign demo_json (replying None)
        (snd (serve demo_json (replying (Some \<lparr> Command = 3, Data = [] \<rparr>)) NewWalletServer () False))
        ''f1abc'' [1, 2, 3, 4] chain_meta
     = (Some (Inl (Err ''wallet not exist'')), NewWalletServer)
   \<and> WalletServer_WalletSign demo_json (replying None)
        (snd (serve demo_json (replying (Some \<lparr> Command = 1, Data = [9] \<rparr>)) NewWalletServer () False))
        ''f1abc'' [1, 2, 3, 4] chain_meta
     = (Some (Inl (Err ''wallet not exist'')), NewWalletServer)"
proof -
  let ?c0 = "\<lparr> addresses = [], conn = (), close = False \<rparr>"
  let ?req = "\<lparr> Command = CommandListWalletRequest, Data = [] \<rparr>"
  let ?wrong = "\<lparr> Command = 3, Data = [] \<rparr>"
  let ?bad = "\<lparr> Command = 1, Data = [9] \<rparr>"
  let ?srv = "NewWalletServer :: unit WalletServer"
  have a: "call (replying None) ?c0 ?req = (None, ?c0)"
    by (simp add: call_def replying_def)
  have b: "call (replying (Some ?wrong)) ?c0 ?req = (Some (Inr ?wrong), ?c0)"
    by (simp add: call_def replying_def)
  have b': "Command ?wrong \<noteq> CommandListWalletResponse"
    by (simp add: CommandListWalletResponse_def)
  have c: "call (replying (Some ?bad)) ?c0 ?req = (Some (Inr ?bad), ?c0)"
    by (simp add: call_def replying_def)
  have c': "Unmarshal_ListWalletResponse demo_json (Data ?bad) = Inl (Err ''unexpected end of JSON input'')"
    by code_simp
  have m: "\<not> mutex ?srv" by (simp add: NewWalletServer_def)
  have n: "\<not> list_ex (\<lambda>(p, cw). ''f1abc'' \<in> set (addresses cw)) (clients ?srv)"
    by (simp add: NewWalletServer_def)
  have sa: "serve demo_json (replying None) ?srv () False = (None, ?srv)"
    using a by (simp add: serve_def)
  have sb: "serve demo_json (replying (Some ?wrong)) ?srv () False
      = (Some (Some (Err ''expect list wallet response'')), ?srv)"
    using b b' by (simp add: serve_def)
  have sc: "serve demo_json (replying (Some ?bad)) ?srv () False
      = (Some (Some (Err ''failed to decode addresses, unexpected end of JSON input'')), ?srv)"
    using c c' by (simp add: serve_def CommandListWalletResponse_def)
  have ta: "WalletServer_WalletSign demo_json (replying None)
        (snd (serve demo_json (replying None) ?srv () False)) ''f1abc'' [1, 2, 3, 4] chain_meta
     = (Some (Inl (Err ''wallet not exist'')), ?srv)"
    using handshake_failure_not_registered [where j = demo_json and io' = "replying None"
        and toSign = "[1, 2, 3, 4]" and meta = chain_meta, OF a _ m n] by (simp add: sa)
  have tb: "WalletServer_WalletSign demo_json (replying None)
        (snd (serve demo_json (replying (Some ?wrong)) ?srv () False)) ''f1abc'' [1, 2, 3, 4] chain_meta
     = (Some (Inl (Err ''wallet not exist'')), ?srv)"
    using handshake_failure_not_registered [where j = demo_json and io' = "replying None"
        and toSign = "[1, 2, 3, 4]" and meta = chain_meta, OF b _ m n] b' by (simp add: sb)
  have tc: "WalletServer_WalletSign demo_json (replying None)
        (snd (serve demo_json (replying (Some ?bad)) ?srv () False)) ''f1abc'' [1, 2, 3, 4] chain_meta
     = (Some (Inl (Err ''wallet not exist'')), ?srv)"
    using handshake_failure_not_registered [where j = demo_json and io' = "replying None"
        and toSign = "[1, 2, 3, 4]" and meta = chain_meta, OF c _ m n] c' by (simp add: sc)
  from a b b' c c' m n sa sb sc ta tb tc show ?thesis by simp
qed

lemma find_advertiser:
  assumes "(p0, c0) \<in> set (clients srv)" and "addrX \<in> set (addresses c0)"
  shows "\<exists>p c. find (\<lambda>(p, c). addrX \<in> set (addresses c)) (clients srv) = Some (p, c)
     \<and> (p, c) \<in> set (clients srv) \<and> addrX \<in> set (addresses c)"
proof -
  from assms have "find (\<lambda>(p, c). addrX \<in> set (addresses c)) (clients srv) \<noteq> None"
    by (auto simp: find_None_iff)
  then obtain p c where f: "find (\<lambda>(p, c). addrX \<in> set (addresses c)) (clients srv) = Some (p, c)"
    by auto
  then have "(p, c) \<in> set (clients srv) \<and> addrX \<in> set (addresses c)"
    by (auto simp: find_Some_iff in_set_conv_nth)
  with f show ?thesis by blast
qed

lemma WalletSign_reply:
  assumes "\<not> mutex srv"
    and "find (\<lambda>(p, c). addrX \<in> set (addresses c)) (clients srv) = Some (p, c)"
    and "Marshal_SignRequest j \<lparr> Signer = addrX, ReqToSign = payload, ReqMeta = meta \<rparr> = Inr bs"
    and "call io c \<lparr> Command = CommandSignRequest, Data = bs \<rparr> = (Some (Inr out), c')"
    and "Unmarshal_SignResponse j (Data out) = Inr resp"
  shows "WalletServer_WalletSign j io srv addrX payload meta
     = (Some (if RespErr resp \<noteq> [] then Inl (Err (RespErr resp)) else Inr (RespSignature resp)),
        srv \<lparr> clients := AList.update p c' (clients srv) \<rparr>)"
  using assms by (simp add: WalletServer_WalletSign_def)

text \<open>
  Claim C4. Let the mutex be free, let some registered client advertise \<open>addrX\<close>, and
  let \<open>bs\<close> be the encoding of the sign request made of \<open>addrX\<close>, the payload and
  the meta data. Then there is a registered client advertising \<open>addrX\<close> on whose
  connection \<open>WalletSign\<close> makes its call, with the command of kind sign request
  and data \<open>bs\<close>, and for every reply \<open>out\<close> read back that decodes to a sign response
  \<open>resp\<close>: when the error string of \<open>resp\<close> is not empty, \<open>WalletSign\<close> returns that
  string as its error, whatever the signature field holds; when it is empty,
  \<open>WalletSign\<close> returns the signature field of \<open>resp\<close> as it is. This holds for
  every connection, so the result depends on the connection through this one call
  alone.
\<close>

theorem WalletServer_WalletSign_round_trip:
  assumes "\<not> mutex srv"
    and "(p0, c0) \<in> set (clients srv)" and "addrX \<in> set (addresses c0)"
    and "Marshal_SignRequest j \<lparr> Signer = addrX, ReqToSign = payload, ReqMeta = meta \<rparr> = Inr bs"
  shows "\<exists>p c. (p, c) \<in> set (clients srv) \<and> addrX \<in> set (addresses c)
     \<and> (\<forall>out c' resp.
           call io c \<lparr> Command = CommandSignRequest, Data = bs \<rparr> = (Some (Inr out), c')
           \<and> Unmarshal_SignResponse j (Data out) = Inr resp \<longrightarrow>
           WalletServer_WalletSign j io srv addrX payload meta
             = (Some (if RespErr resp \<noteq> [] then Inl (Err (RespErr resp))
                      else Inr (RespSignature resp)),
                srv \<lparr> clients := AList.update p c' (clients srv) \<rparr>))"
proof -
  from find_advertiser[OF assms(2,3)] obtain p c where
    f: "find (\<lambda>(p, c). addrX \<in> set (addresses c)) (clients srv) = Some (p, c)"
    and m: "(p, c) \<in> set (clients srv)" "addrX \<in> set (addresses c)" by blast
  have "\<forall>out c' resp.
           call io c \<lparr> Command = CommandSignRequest, Data = bs \<rparr> = (Some (Inr out), c')
           \<and> Unmarshal_SignResponse j (Data out) = Inr resp \<longrightarrow>
           WalletServer_WalletSign j io srv addrX payload meta
             = (Some (if RespErr resp \<noteq> [] then Inl (Err (RespErr resp))
                      else Inr (RespSignature resp)),
                srv \<lparr> clients := AList.update p c' (clients srv) \<rparr>)"
    using WalletSign_reply[OF assms(1) f assms(4)] by blast
  with m show ?thesis by blast
qed

text \<open>
  The far end of a connection of kind \<open>peer\<close>: a sign request that decodes is signed
  by the local wallet, and the reply is what \<open>call\<close> reads back.
\<close>

lemma peer_call:
  assumes "connect_reply j w s cmd = (Some resp, s')"
  shows "call (peer j w) \<lparr> addresses = as, conn = ([], s), close = cl \<rparr> cmd
     = (Some (Inr resp), \<lparr> addresses = as, conn = ([], s'), close = cl \<rparr>)"
  using assms by (simp add: call_def peer_def)

lemma connect_reply_sign:
  assumes "Unmarshal_SignRequest j bs = Inr \<lparr> Signer = addrX, ReqToSign = payload, ReqMeta = meta \<rparr>"
    and "WalletSign w addrX payload meta s = (r, s')"
    and "Marshal_SignResponse j
           \<lparr> RespSignature = (case r of Inr sig \<Rightarrow> sig | Inl err \<Rightarrow> None),
             RespErr = (case r of Inr sig \<Rightarrow> [] | Inl err \<Rightarrow> error_text err) \<rparr> = Inr d"
  shows "connect_reply j w s \<lparr> Command = CommandSignRequest, Data = bs \<rparr>
     = (Some \<lparr> Command = CommandSignResponse, Data = d \<rparr>, s')"
  using assms
  by (simp add: connect_reply_def CommandSignRequest_def CommandListWalletRequest_def)

text \<open>
  Both ends together: over a connection of kind \<open>peer\<close> with no reply under way,
  and with a codec that gives back the request and the response it encoded,
  \<open>WalletSign\<close> on the server returns what the wallet at the far end returns for
  the same address, payload and meta data (a signing error as an error with the
  same text).
\<close>

lemma relay_end_to_end:
  assumes "\<not> mutex srv"
    and "find (\<lambda>(p, c). addrX \<in> set (addresses c)) (clients srv)
           = Some (p, \<lparr> addresses = as, conn = ([], s), close = cl \<rparr>)"
    and "Marshal_SignRequest j \<lparr> Signer = addrX, ReqToSign = payload, ReqMeta = meta \<rparr> = Inr bs"
    and "Unmarshal_SignRequest j bs = Inr \<lparr> Signer = addrX, ReqToSign = payload, ReqMeta = meta \<rparr>"
    and "WalletSign w addrX payload meta s = (r, s')"
    and "Marshal_SignResponse j
           \<lparr> RespSignature = (case r of Inr sig \<Rightarrow> sig | Inl err \<Rightarrow> None),
             RespErr = (case r of Inr sig \<Rightarrow> [] | Inl err \<Rightarrow> error_text err) \<rparr> = Inr d"
    and "Unmarshal_SignResponse j d
           = Inr \<lparr> RespSignature = (case r of Inr sig \<Rightarrow> sig | Inl err \<Rightarrow> None),
                   RespErr = (case r of Inr sig \<Rightarrow> [] | Inl err \<Rightarrow> error_text err) \<rparr>"
  shows "fst (WalletServer_WalletSign j (peer j w) srv addrX payload meta)
     = Some (case r of
               Inr sig \<Rightarrow> Inr sig
             | Inl err \<Rightarrow> if error_text err = [] then Inr None else Inl (Err (error_text err)))"
proof -
  let ?resp = "\<lparr> RespSignature = (case r of Inr sig \<Rightarrow> sig | Inl err \<Rightarrow> None),
             RespErr = (case r of Inr sig \<Rightarrow> [] | Inl err \<Rightarrow> error_text err) \<rparr>"
  have c: "call (peer j w) \<lparr> addresses = as, conn = ([], s), close = cl \<rparr>
        \<lparr> Command = CommandSignRequest, Data = bs \<rparr>
      = (Some (Inr \<lparr> Command = CommandSignResponse, Data = d \<rparr>),
         \<lparr> addresses = as, conn = ([], s'), close = cl \<rparr>)"
    by (rule peer_call, rule connect_reply_sign [OF assms(4,5,6)])
  have "WalletServer_WalletSign j (peer j w) srv addrX payload meta
     = (Some (if RespErr ?resp \<noteq> [] then Inl (Err (RespErr ?resp)) else Inr (RespSignature ?resp)),
        srv \<lparr> clients := AList.update p \<lparr> addresses = as, conn = ([], s'), close = cl \<rparr> (clients srv) \<rparr>)"
    using WalletSign_reply [OF assms(1,2,3) c] assms(7) by simp
  then show ?thesis by (cases r) simp_all
qed

lemma srv1_handshake:
  "ServeHTTP demo_json (peer demo_json MemWallet) NewWalletServer ([], [''f1abc'']) = srv1"
  by code_simp

theorem WalletServer_WalletSign_round_trip_witness:
  "\<not> mutex srv1 \<and> (0, alice) \<in> set (clients srv1) \<and> ''f1abc'' \<in> set (addresses alice)
   \<and> Marshal_SignRequest demo_json \<lparr> Signer = ''f1abc'', ReqToSign = [1, 2, 3, 4], ReqMeta = chain_meta \<rparr>
       = Inr sign_request_bytes
   \<and> Unmarshal_SignRequest demo_json sign_request_bytes
       = Inr \<lparr> Signer = ''f1abc'', ReqToSign = [1, 2, 3, 4], ReqMeta = chain_meta \<rparr>
   \<and> call (peer demo_json MemWallet) alice \<lparr> Command = CommandSignRequest, Data = sign_request_bytes \<rparr>
       = (Some (Inr \<lparr> Command = CommandSignResponse, Data = sign_response_bytes \<rparr>), alice)
   \<and> Unmarshal_SignResponse demo_json sign_response_bytes
       = Inr \<lparr> RespSignature = Some \<lparr> SigType = 1, SigData = [1, 2, 3, 4] \<rparr>, RespErr = [] \<rparr>
   \<and> WalletServer_WalletSign demo_json (peer demo_json MemWallet) srv1 ''f1abc'' [1, 2, 3, 4] chain_meta
       = (Some (Inr (Some \<lparr> SigType = 1, SigData = [1, 2, 3, 4] \<rparr>)), srv1)
   \<and> \<not> mutex srv3 \<and> (0, stale) \<in> set (clients srv3) \<and> ''f1abc'' \<in> set (addresses stale)
   \<and> call (peer demo_json MemWallet) stale \<lparr> Command = CommandSignRequest, Data = sign_request_bytes \<rparr>
       = (Some (Inr \<lparr> Command = CommandSignResponse, Data = sign_failure_bytes \<rparr>), stale)
   \<and> Unmarshal_SignResponse demo_json sign_failure_bytes
       = Inr \<lparr> RespSignature = None, RespErr = ''key not found'' \<rparr>
   \<and> WalletServer_WalletSign demo_json (peer demo_json MemWallet) srv3 ''f1abc'' [1, 2, 3, 4] chain_meta
       = (Some (Inl (Err ''key not found'')), srv3)"
proof -
  let ?bad = "\<lparr> Command = CommandSignResponse, Data = sign_failure_bytes \<rparr>"
  let ?fail = "\<lparr> RespSignature = None, RespErr = ''key not found'' \<rparr>"
  let ?io = "peer demo_json MemWallet"
  let ?cmd = "\<lparr> Command = CommandSignRequest, Data = sign_request_bytes \<rparr>"
  let ?out = "\<lparr> Command = CommandSignResponse, Data = sign_response_bytes \<rparr>"
  let ?resp = "\<lparr> RespSignature = Some \<lparr> SigType = 1, SigData = [1, 2, 3, 4] \<rparr>, RespErr = [] \<rparr>"
  have h1: "\<not> mutex srv1" by (simp add: srv1_def)
  have h2: "(0, alice) \<in> set (clients srv1)" by (simp add: srv1_def)
  have h3: "''f1abc'' \<in> set (addresses alice)" by (simp add: alice_def)
  have h4: "Marshal_SignRequest demo_json \<lparr> Signer = ''f1abc'', ReqToSign = [1, 2, 3, 4], ReqMeta = chain_meta \<rparr>
       = Inr sign_request_bytes" by code_simp
  have d: "Unmarshal_SignRequest demo_json sign_request_bytes
       = Inr \<lparr> Signer = ''f1abc'', ReqToSign = [1, 2, 3, 4], ReqMeta = chain_meta \<rparr>" by code_simp
  have c: "call ?io alice ?cmd = (Some (Inr ?out), alice)" by code_simp
  have u: "Unmarshal_SignResponse demo_json (Data ?out) = Inr ?resp" by code_simp
  from WalletServer_WalletSign_round_trip [OF h1 h2 h3 h4, of ?io]
  obtain p cw where in1: "(p, cw) \<in> set (clients srv1)"
    and all: "\<forall>out c' resp.
           call ?io cw ?cmd = (Some (Inr out), c') \<and> Unmarshal_SignResponse demo_json (Data out) = Inr resp \<longrightarrow>
           WalletServer_WalletSign demo_json ?io srv1 ''f1abc'' [1, 2, 3, 4] chain_meta
             = (Some (if RespErr resp \<noteq> [] then Inl (Err (RespErr resp)) else Inr (RespSignature resp)),
                srv1 \<lparr> clients := AList.update p c' (clients srv1) \<rparr>)"
    by blast
  from in1 have pc: "p = 0" "cw = alice" by (simp_all add: srv1_def)
  from all c u pc have "WalletServer_WalletSign demo_json ?io srv1 ''f1abc'' [1, 2, 3, 4] chain_meta
      = (Some (if RespErr ?resp \<noteq> [] then Inl (Err (RespErr ?resp)) else Inr (RespSignature ?resp)),
         srv1 \<lparr> clients := AList.update 0 alice (clients srv1) \<rparr>)"
    by blast
  then have r: "WalletServer_WalletSign demo_json ?io srv1 ''f1abc'' [1, 2, 3, 4] chain_meta
      = (Some (Inr (Some \<lparr> SigType = 1, SigData = [1, 2, 3, 4] \<rparr>)), srv1)"
    by (simp add: srv1_def)
  have g1: "\<not> mutex srv3" by (simp add: srv3_def)
  have g2: "(0, stale) \<in> set (clients srv3)" by (simp add: srv3_def)
  have g3: "''f1abc'' \<in> set (addresses stale)" by (simp add: stale_def)
  have c2: "call ?io stale ?cmd = (Some (Inr ?bad), stale)" by code_simp
  have u2: "Unmarshal_SignResponse demo_json (Data ?bad) = Inr ?fail" by code_simp
  from WalletServer_WalletSign_round_trip [OF g1 g2 g3 h4, of ?io]
  obtain p2 cw2 where in2: "(p2, cw2) \<in> set (clients srv3)"
    and all2: "\<forall>out c' resp.
           call ?io cw2 ?cmd = (Some (Inr out), c') \<and> Unmarshal_SignResponse demo_json (Data out) = Inr resp \<longrightarrow>
           WalletServer_WalletSign demo_json ?io srv3 ''f1abc'' [1, 2, 3, 4] chain_meta
             = (Some (if RespErr resp \<noteq> [] then Inl (Err (RespErr resp)) else Inr (RespSignature resp)),
                srv3 \<lparr> clients := AList.update p2 c' (clients srv3) \<rparr>)"
    by blast
  from in2 have pc2: "p2 = 0" "cw2 = stale" by (simp_all add: srv3_def)
  from all2 c2 u2 pc2 have "WalletServer_WalletSign demo_json ?io srv3 ''f1abc'' [1, 2, 3, 4] chain_meta
      = (Some (if RespErr ?fail \<noteq> [] then Inl (Err (RespErr ?fail)) else Inr (RespSignature ?fail)),
         srv3 \<lparr> clients := AList.update 0 stale (clients srv3) \<rparr>)"
    by blast
  then have r2: "WalletServer_WalletSign demo_json ?io srv3 ''f1abc'' [1, 2, 3, 4] chain_meta
      = (Some (Inl (Err ''key not found'')), srv3)"
    by (simp add: srv3_def)
  from h1 h2 h3 h4 d c u r g1 g2 g3 c2 u2 r2 show ?thesis by simp
qed

text \<open>
  Claim C3 says that neither mutex is held across a blocking wait, so that one
  request that is never fulfilled cannot block others. The code departs from it in
  both places. \<open>SubmitSignature\<close> sends on the entry's channel with the queue's
  mutex held: when the caller of \<open>WalletSign\<close> has left its \<open>select\<close> (it timed out
  and has not yet run its cleanup), the send never completes, the mutex stays held,
  and after that \<open>WalletSign\<close> for another address and payload and
  \<open>GetPendingMessages\<close> never return. \<open>WalletServer.WalletSign\<close> holds the registry
  mutex during \<open>call\<close>: when the peer that advertises f1abc never answers, the
  mutex stays held, and \<open>WalletHas\<close> for the address of the other peer and
  \<open>WalletList\<close> never return.
\<close>

theorem mutex_held_while_blocked:
  "SubmitSignature demo_ext (\<lambda>k. False) q1 good_message = (None, None, q1 \<lparr> lock := True \<rparr>)
   \<and> fst (OfflineWallet_WalletSign demo_ext (\<lambda>k q. (TimeAfter, q)) (q1 \<lparr> lock := True \<rparr>)
            ''f3xyz'' [1, 7, 7] chain_meta) = None
   \<and> GetPendingMessages (q1 \<lparr> lock := True \<rparr>) = None
   \<and> WalletServer_WalletSign demo_json (replying None) srv2 ''f1abc'' [1, 2, 3, 4] chain_meta
       = (None, srv2 \<lparr> mutex := True \<rparr>)
   \<and> WalletServer_WalletHas (srv2 \<lparr> mutex := True \<rparr>) ''f3xyz'' = None
   \<and> WalletServer_WalletList (srv2 \<lparr> mutex := True \<rparr>) = None"
proof -
  have a: "SubmitSignature demo_ext (\<lambda>k. False) q1 good_message = (None, None, q1 \<lparr> lock := True \<rparr>)"
    by (simp add: q1_eq good_message_def demo_ext_def demo_sign_def SubmitSignature_def)
  have b: "fst (OfflineWallet_WalletSign demo_ext (\<lambda>k q. (TimeAfter, q)) (q1 \<lparr> lock := True \<rparr>)
            ''f3xyz'' [1, 7, 7] chain_meta) = None"
    by (simp add: OfflineWallet_WalletSign_def demo_ext_def chain_meta_def)
  have c: "GetPendingMessages (q1 \<lparr> lock := True \<rparr>) = None"
    by (simp add: GetPendingMessages_def)
  have d: "WalletServer_WalletSign demo_json (replying None) srv2 ''f1abc'' [1, 2, 3, 4] chain_meta
       = (None, srv2 \<lparr> mutex := True \<rparr>)"
    by (simp add: WalletServer_WalletSign_def srv2_def demo_json_def call_def replying_def)
  have e: "WalletServer_WalletHas (srv2 \<lparr> mutex := True \<rparr>) ''f3xyz'' = None"
    by (simp add: WalletServer_WalletHas_def)
  have f: "WalletServer_WalletList (srv2 \<lparr> mutex := True \<rparr>) = None"
    by (simp add: WalletServer_WalletList_def)
  from a b c d e f show ?thesis by simp
qed

text \<open>
  The other paths do release the mutex before they wait: the closure of
  \<open>WalletSign\<close> hands the queue on with the mutex free, and \<open>serve\<close> makes its
  handshake call before it takes the mutex.
\<close>

lemma WalletSign_releases_mutex_before_wait:
  "\<not> lock ow \<Longrightarrow> \<not> lock (snd (WalletSign_register ow signer toSign meta c))"
  by (simp add: WalletSign_register_def Let_def)

lemma serve_handshake_without_mutex:
  "call io \<lparr> addresses = [], conn = c, close = cl \<rparr>
      \<lparr> Command = CommandListWalletRequest, Data = [] \<rparr> = (None, client)
   \<Longrightarrow> mutex (snd (serve j io srv c cl)) = mutex srv"
  by (simp add: serve_def)

end
